theory Spec2Isabelle
  imports Complex_Main "HOL-Library.Word"
begin

section \<open>Go values, time and errors\<close>

text \<open>
  A \<^verbatim>\<open>time.Time\<close> is an instant, counted here in nanoseconds since the Unix epoch; a
  \<^verbatim>\<open>time.Duration\<close> is a signed 64-bit count of nanoseconds. \<^verbatim>\<open>t.Add(d)\<close> moves the
  instant by the signed value of the duration and \<^verbatim>\<open>t.Unix()\<close> is the number of whole
  seconds since the epoch (rounded down). Instants are unbounded integers: an instant
  near the present plus any 64-bit duration is far inside the range of \<^verbatim>\<open>time.Time\<close>.
\<close>

type_synonym Time = int

type_synonym Duration = "64 word"

definition Add :: "Time \<Rightarrow> Duration \<Rightarrow> Time" where
  "Add t d = t + sint d"

definition Unix :: "Time \<Rightarrow> int" where
  "Unix t = t div 1000000000"

definition Hour :: Duration where
  "Hour = 3600000000000"

text \<open>
  A value of type \<^verbatim>\<open>interface{}\<close> as it occurs in a claims map or in the request
  environment: the nil interface, the types \<^verbatim>\<open>encoding/json\<close> decodes into (bool,
  float64, string, slice, map), and the \<^verbatim>\<open>int64\<close> that \<^verbatim>\<open>Unix()\<close> returns. A finite
  float64 is a rational number. A map value is \<open>None\<close> for the nil map.
\<close>

datatype interface =
    VNil
  | VBool bool
  | VString string
  | VInt64 int
  | VFloat64 rat
  | VSlice "interface list"
  | VMap "(string \<Rightarrow> interface option) option"

type_synonym gomap = "string \<Rightarrow> interface option"

text \<open>\<^verbatim>\<open>m[k]\<close> on a map of interfaces: the nil interface when the key is absent.\<close>

definition index :: "gomap \<Rightarrow> string \<Rightarrow> interface" where
  "index m k = (case m k of None \<Rightarrow> VNil | Some v \<Rightarrow> v)"

text \<open>
  The conversion \<^verbatim>\<open>int64(f)\<close> of a float64: the fraction is discarded (towards zero).
  Outside the range of int64 Go leaves the result to the implementation; the value
  amd64 produces is used.
\<close>

definition int64 :: "rat \<Rightarrow> int" where
  "int64 f =
     (let n = (if 0 \<le> f then \<lfloor>f\<rfloor> else \<lceil>f\<rceil>)
      in if - (2 ^ 63) \<le> n \<and> n < 2 ^ 63 then n else - (2 ^ 63))"

datatype error = errors_New string

type_synonym bytes = "8 word list"

section \<open>The request and the response writer\<close>

record login =
  Username :: string
  Password :: string

text \<open>
  Of a \<^verbatim>\<open>rest.Request\<close> the component reads the headers (\<^verbatim>\<open>Header.Get\<close>, the empty
  string for an absent header), reads and writes the environment \<^verbatim>\<open>Env\<close> (a map the
  framework has allocated), and decodes the body once (\<^verbatim>\<open>DecodeJsonPayload\<close> into a
  \<^verbatim>\<open>login\<close>, or an error).
\<close>

record Request =
  Header_Get :: "string \<Rightarrow> string"
  Env :: gomap
  DecodeJsonPayload :: "error + login"

text \<open>
  What a handler does to the outside, in order: writes to the
  \<^verbatim>\<open>rest.ResponseWriter\<close> and calls of the collaborators.
\<close>

datatype effect =
    Header_Set string string
  | rest_Error string nat
  | WriteJson_resultToken string
  | call_Authenticator string string
  | call_Authorizator string
  | call_StoreToken Duration string string
  | call_RemoveToken string string
  | call_LoginCallback string
  | call_RefreshCallback string
  | call_handler gomap

section \<open>The jwt package\<close>

text \<open>
  A signing method is a registered object, identified by its algorithm name. Of a
  \<^verbatim>\<open>jwt.Token\<close> the middleware uses the raw string, the method and the claims; it only
  reads the claims of a parsed token (reading a nil map is reading an empty one) and
  only writes those of a token made by \<^verbatim>\<open>jwt.New\<close>, so the claims are a plain map.
\<close>

datatype SigningMethod = SigningMethod string

record Token =
  Raw :: string
  Method :: "SigningMethod option"
  Claims :: gomap
  Valid :: bool

type_synonym Keyfunc = "Token \<Rightarrow> error + bytes option"

text \<open>
  The operations of package \<^verbatim>\<open>jwt\<close> that the middleware calls are parameters of the
  model: the registry of signing methods (\<open>None\<close> for an unregistered name),
  \<^verbatim>\<open>jwt.Parse\<close> (which also reads the clock) and \<^verbatim>\<open>Token.SignedString\<close>.
\<close>

record jwt_pkg =
  GetSigningMethod :: "string \<Rightarrow> SigningMethod option"
  Parse :: "string \<Rightarrow> Keyfunc \<Rightarrow> Time \<Rightarrow> error + Token"
  SignedString :: "Token \<Rightarrow> bytes option \<Rightarrow> error + string"

text \<open>
  Modelled from the spec: \<^verbatim>\<open>jwt.New\<close> belongs to the external package
  \<^verbatim>\<open>github.com/dgrijalva/jwt-go\<close>, which is not among the sources. It gives a fresh,
  unsigned token of the given method whose claims map is allocated and empty
  (issuance builds the claims from nothing).
\<close>

definition jwt_New :: "SigningMethod option \<Rightarrow> Token" where
  "jwt_New method = \<lparr>Raw = [], Method = method, Claims = Map.empty, Valid = False\<rparr>"

text \<open>
  Modelled from the spec: the expiry check of \<^verbatim>\<open>jwt.Parse\<close> (external package, not
  among the sources). The spec's words are that a token is valid only if \<^verbatim>\<open>exp\<close> is
  strictly in the future at verification time; \<^verbatim>\<open>exp\<close> is a Unix timestamp in seconds,
  a float64 once decoded.
\<close>

definition exp_in_future :: "gomap \<Rightarrow> Time \<Rightarrow> bool" where
  "exp_in_future claims now =
     (case claims ''exp'' of
        Some (VFloat64 e) \<Rightarrow> Unix now < int64 e
      | _ \<Rightarrow> False)"

text \<open>
  Modelled from the spec: \<^verbatim>\<open>jwt.Parse\<close> belongs to the same external package. The
  spec's words are: parse and verify the signature; reject if the token's signing
  algorithm does not match the configured one, if the signature is invalid, or if
  \<^verbatim>\<open>exp\<close> has passed. The algorithm check and the key are the caller's key function.
  Decoding the three segments (\<open>dec\<close>, \<open>None\<close> for a malformed string) and checking
  the signature of a decoded token under a key (\<open>ver\<close>) are parameters.
\<close>

definition jwt_Parse ::
  "(string \<Rightarrow> Token option) \<Rightarrow> (Token \<Rightarrow> bytes option \<Rightarrow> bool) \<Rightarrow>
   string \<Rightarrow> Keyfunc \<Rightarrow> Time \<Rightarrow> error + Token" where
  "jwt_Parse dec ver tokenString keyFunc now =
     (case dec tokenString of
        None \<Rightarrow> Inl (errors_New ''token is malformed'')
      | Some token \<Rightarrow>
          (case keyFunc token of
             Inl err \<Rightarrow> Inl err
           | Inr key \<Rightarrow>
               if \<not> exp_in_future (Claims token) now
               then Inl (errors_New ''token is expired'')
               else if \<not> ver token key
               then Inl (errors_New ''signature is invalid'')
               else Inr (token\<lparr>Valid := True\<rparr>)))"

section \<open>The middleware\<close>

datatype hook = NilHook | Hook

datatype callback = NilCallback | DefaultResponseCallback | CustomCallback

datatype extractor =
    NilExtractor
  | DefaultTokenExtractor
  | CustomExtractor "Request \<Rightarrow> error + string"

text \<open>
  The struct \<^verbatim>\<open>JWTMiddleware\<close>. A function field that may be nil is an option (or a
  datatype with a nil case). \<^verbatim>\<open>StoreToken\<close> and \<^verbatim>\<open>RemoveToken\<close> only act on the
  outside: what matters is whether they are set. The default token extractor is a
  closure over the middleware itself and reads \<^verbatim>\<open>TokenName\<close> when it is called.
\<close>

record JWTMiddleware =
  Realm :: string
  SigningAlgorithm :: string
  Key :: "bytes option"
  Timeout :: Duration
  MaxRefresh :: Duration
  Authenticator :: "(string \<Rightarrow> string \<Rightarrow> bool) option"
  Authorizator :: "(string \<Rightarrow> Request \<Rightarrow> bool) option"
  StoreToken :: hook
  RemoveToken :: hook
  PayloadFunc :: "(string \<Rightarrow> gomap) option"
  TokenExtractor :: extractor
  TokenName :: string
  TokenEnvName :: string
  LoginCallback :: callback
  RefreshCallback :: callback

datatype fatal = log_Fatal string

definition MiddlewareFunc :: "JWTMiddleware \<Rightarrow> fatal + JWTMiddleware" where
  "MiddlewareFunc mw0 =
     (let mw1 = (if TokenName mw0 = [] then mw0\<lparr>TokenName := ''Authorization''\<rparr> else mw0);
          mw2 = (if TokenEnvName mw1 = [] then mw1\<lparr>TokenEnvName := ''AUTH_TOKEN''\<rparr> else mw1)
      in if Realm mw2 = [] then Inl (log_Fatal ''Realm is required'')
      else
        let mw3 = (if SigningAlgorithm mw2 = [] then mw2\<lparr>SigningAlgorithm := ''HS256''\<rparr> else mw2)
        in if Key mw3 = None then Inl (log_Fatal ''Key required'')
        else
          let mw4 = (if Timeout mw3 = 0 then mw3\<lparr>Timeout := Hour\<rparr> else mw3)
          in if Authenticator mw4 = None then Inl (log_Fatal ''Authenticator is required'')
          else
            let mw5 = (if TokenExtractor mw4 = NilExtractor
                       then mw4\<lparr>TokenExtractor := DefaultTokenExtractor\<rparr> else mw4);
                mw6 = (if Authorizator mw5 = None
                       then mw5\<lparr>Authorizator := Some (\<lambda>userId request. True)\<rparr> else mw5);
                mw7 = (if LoginCallback mw6 = NilCallback
                       then mw6\<lparr>LoginCallback := DefaultResponseCallback\<rparr> else mw6);
                mw8 = (if RefreshCallback mw7 = NilCallback
                       then mw7\<lparr>RefreshCallback := DefaultResponseCallback\<rparr> else mw7)
            in Inr mw8)"

text \<open>
  The state a handler runs in: the receiver \<^verbatim>\<open>*mw\<close>, the request (whose
  environment the gate writes) and the effects so far.
\<close>

record state =
  mw :: JWTMiddleware
  request :: Request
  trace :: "effect list"

datatype exit = Return | Panic

definition emit :: "effect \<Rightarrow> state \<Rightarrow> state" where
  "emit e \<sigma> = \<sigma>\<lparr>trace := trace \<sigma> @ [e]\<rparr>"

definition defaultResponseCallback :: "string \<Rightarrow> state \<Rightarrow> state" where
  "defaultResponseCallback tokenString \<sigma> = emit (WriteJson_resultToken tokenString) \<sigma>"

text \<open>\<^verbatim>\<open>strings.SplitN(s, " ", 2)\<close>: cut at the first space, if there is one.\<close>

definition SplitN :: "string \<Rightarrow> string list" where
  "SplitN s =
     (if CHR '' '' \<in> set s
      then [takeWhile (\<lambda>c. c \<noteq> CHR '' '') s, tl (dropWhile (\<lambda>c. c \<noteq> CHR '' '') s)]
      else [s])"

definition defaultTokenExtractor :: "JWTMiddleware \<Rightarrow> Request \<Rightarrow> error + string" where
  "defaultTokenExtractor m req =
     (let authHeader = Header_Get req (TokenName m)
      in if authHeader = [] then Inl (errors_New ''Auth header empty'')
      else
        let parts = SplitN authHeader
        in if \<not> (length parts = 2 \<and> parts ! 0 = ''Bearer'')
           then Inl (errors_New ''Invalid auth header'')
           else Inr (parts ! 1))"

definition unauthorized :: "state \<Rightarrow> state" where
  "unauthorized \<sigma> =
     emit (rest_Error ''Not Authorized'' 401)
       (emit (Header_Set ''WWW-Authenticate'' (''JWT realm='' @ Realm (mw \<sigma>))) \<sigma>)"

text \<open>The key function handed to \<^verbatim>\<open>jwt.Parse\<close> by \<^verbatim>\<open>parseToken\<close>.\<close>

definition keyfunc :: "jwt_pkg \<Rightarrow> JWTMiddleware \<Rightarrow> Keyfunc" where
  "keyfunc L m token =
     (if GetSigningMethod L (SigningAlgorithm m) \<noteq> Method token
      then Inl (errors_New ''Invalid signing algorithm'')
      else Inr (Key m))"

text \<open>The call \<^verbatim>\<open>mw.TokenExtractor(request)\<close>; \<open>None\<close>: calling a nil function panics.\<close>

definition call_TokenExtractor :: "state \<Rightarrow> (error + string) option" where
  "call_TokenExtractor \<sigma> =
     (case TokenExtractor (mw \<sigma>) of
        NilExtractor \<Rightarrow> None
      | DefaultTokenExtractor \<Rightarrow> Some (defaultTokenExtractor (mw \<sigma>) (request \<sigma>))
      | CustomExtractor extract \<Rightarrow> Some (extract (request \<sigma>)))"

definition parseToken :: "jwt_pkg \<Rightarrow> Time \<Rightarrow> state \<Rightarrow> (error + Token) option" where
  "parseToken L now \<sigma> =
     (case call_TokenExtractor \<sigma> of
        None \<Rightarrow> None
      | Some (Inl err) \<Rightarrow> Some (Inl err)
      | Some (Inr tokenString) \<Rightarrow> Some (Parse L tokenString (keyfunc L (mw \<sigma>)) now))"

text \<open>The environment as the gate leaves it (the three assignments, in order).\<close>

definition bind_env :: "JWTMiddleware \<Rightarrow> Token \<Rightarrow> string \<Rightarrow> gomap \<Rightarrow> gomap" where
  "bind_env m token ident env =
     ((env(''REMOTE_USER'' \<mapsto> VString ident))
         (''JWT_PAYLOAD'' \<mapsto> VMap (Some (Claims token))))
         (TokenEnvName m \<mapsto> VString (Raw token))"

definition middlewareImpl :: "jwt_pkg \<Rightarrow> Time \<Rightarrow> state \<Rightarrow> exit \<times> state" where
  "middlewareImpl L now \<sigma> =
     (case parseToken L now \<sigma> of
        None \<Rightarrow> (Panic, \<sigma>)
      | Some (Inl err) \<Rightarrow> (Return, unauthorized \<sigma>)
      | Some (Inr token) \<Rightarrow>
          (case index (Claims token) ''id'' of
             VString ident \<Rightarrow>
               (let \<sigma>1 = \<sigma>\<lparr>request := (request \<sigma>)
                            \<lparr>Env := bind_env (mw \<sigma>) token ident (Env (request \<sigma>))\<rparr>\<rparr>
                in case Authorizator (mw \<sigma>1) of
                     None \<Rightarrow> (Panic, \<sigma>1)
                   | Some authorize \<Rightarrow>
                       (let \<sigma>2 = emit (call_Authorizator ident) \<sigma>1
                        in if \<not> authorize ident (request \<sigma>1)
                           then (Return, unauthorized \<sigma>2)
                           else (Return, emit (call_handler (Env (request \<sigma>2))) \<sigma>2)))
           | _ \<Rightarrow> (Panic, \<sigma>)))"

text \<open>\<open>None\<close>: the type assertion on a value that is not a claims map panics.\<close>

definition ExtractClaims :: "Request \<Rightarrow> (gomap option) option" where
  "ExtractClaims req =
     (case index (Env req) ''JWT_PAYLOAD'' of
        VNil \<Rightarrow> Some (Some Map.empty)
      | VMap jwtClaims \<Rightarrow> Some jwtClaims
      | _ \<Rightarrow> None)"

definition run_callback ::
  "callback \<Rightarrow> (string \<Rightarrow> effect) \<Rightarrow> string \<Rightarrow> state \<Rightarrow> exit \<times> state" where
  "run_callback cb custom tokenString \<sigma> =
     (case cb of
        NilCallback \<Rightarrow> (Panic, \<sigma>)
      | DefaultResponseCallback \<Rightarrow> (Return, defaultResponseCallback tokenString \<sigma>)
      | CustomCallback \<Rightarrow> (Return, emit (custom tokenString) \<sigma>))"

text \<open>
  The token \<^verbatim>\<open>LoginHandler\<close> builds for an authenticated user. Ranging over the map
  of \<^verbatim>\<open>PayloadFunc\<close> and assigning each entry is the override of the claims by that
  map. The clock is read once for \<^verbatim>\<open>exp\<close> and, when refresh is enabled, once more
  for \<^verbatim>\<open>orig_iat\<close>.
\<close>

definition login_token :: "jwt_pkg \<Rightarrow> JWTMiddleware \<Rightarrow> Time \<Rightarrow> Time \<Rightarrow> string \<Rightarrow> Token" where
  "login_token L m now_exp now_iat username =
     (let token = jwt_New (GetSigningMethod L (SigningAlgorithm m));
          token = (case PayloadFunc m of
                     None \<Rightarrow> token
                   | Some payload \<Rightarrow> token\<lparr>Claims := Claims token ++ payload username\<rparr>);
          token = token\<lparr>Claims := (Claims token)(''id'' \<mapsto> VString username)\<rparr>;
          token = token\<lparr>Claims := (Claims token)(''exp'' \<mapsto> VInt64 (Unix (Add now_exp (Timeout m))))\<rparr>
      in if MaxRefresh m \<noteq> 0
         then token\<lparr>Claims := (Claims token)(''orig_iat'' \<mapsto> VInt64 (Unix now_iat))\<rparr>
         else token)"

definition LoginHandler :: "jwt_pkg \<Rightarrow> Time \<Rightarrow> Time \<Rightarrow> state \<Rightarrow> exit \<times> state" where
  "LoginHandler L now_exp now_iat \<sigma> =
     (case DecodeJsonPayload (request \<sigma>) of
        Inl err \<Rightarrow> (Return, unauthorized \<sigma>)
      | Inr loginVals \<Rightarrow>
          (case Authenticator (mw \<sigma>) of
             None \<Rightarrow> (Panic, \<sigma>)
           | Some authenticate \<Rightarrow>
               (let \<sigma>1 = emit (call_Authenticator (Username loginVals) (Password loginVals)) \<sigma>
                in if \<not> authenticate (Username loginVals) (Password loginVals)
                   then (Return, unauthorized \<sigma>1)
                   else
                     (let token = login_token L (mw \<sigma>1) now_exp now_iat (Username loginVals)
                      in case SignedString L token (Key (mw \<sigma>1)) of
                           Inl err \<Rightarrow> (Return, unauthorized \<sigma>1)
                         | Inr tokenString \<Rightarrow>
                             (let \<sigma>2 = (case StoreToken (mw \<sigma>1) of
                                          NilHook \<Rightarrow> \<sigma>1
                                        | Hook \<Rightarrow> emit (call_StoreToken (Timeout (mw \<sigma>1))
                                                    (Username loginVals) tokenString) \<sigma>1)
                              in run_callback (LoginCallback (mw \<sigma>2)) call_LoginCallback
                                   tokenString \<sigma>2)))))"

text \<open>
  The token \<^verbatim>\<open>RefreshHandler\<close> builds from the presented one: every entry copied,
  then \<^verbatim>\<open>id\<close> (the nil interface when the old map has none), \<^verbatim>\<open>exp\<close> and
  \<^verbatim>\<open>orig_iat\<close> assigned.
\<close>

definition refresh_token :: "jwt_pkg \<Rightarrow> JWTMiddleware \<Rightarrow> Time \<Rightarrow> Token \<Rightarrow> int \<Rightarrow> Token" where
  "refresh_token L m now_exp token origIat =
     (let newToken = jwt_New (GetSigningMethod L (SigningAlgorithm m));
          newToken = newToken\<lparr>Claims := Claims newToken ++ Claims token\<rparr>;
          newToken = newToken\<lparr>Claims := (Claims newToken)(''id'' \<mapsto> index (Claims token) ''id'')\<rparr>;
          newToken = newToken\<lparr>Claims :=
                       (Claims newToken)(''exp'' \<mapsto> VInt64 (Unix (Add now_exp (Timeout m))))\<rparr>
      in newToken\<lparr>Claims := (Claims newToken)(''orig_iat'' \<mapsto> VInt64 origIat)\<rparr>)"

definition RefreshHandler :: "jwt_pkg \<Rightarrow> Time \<Rightarrow> Time \<Rightarrow> Time \<Rightarrow> state \<Rightarrow> exit \<times> state" where
  "RefreshHandler L now_parse now_check now_exp \<sigma> =
     (case parseToken L now_parse \<sigma> of
        None \<Rightarrow> (Panic, \<sigma>)
      | Some (Inl err) \<Rightarrow> (Return, unauthorized \<sigma>)
      | Some (Inr token) \<Rightarrow>
          (case index (Claims token) ''orig_iat'' of
             VFloat64 f \<Rightarrow>
               (let origIat = int64 f
                in if origIat < Unix (Add now_check (- MaxRefresh (mw \<sigma>)))
                   then (Return, unauthorized \<sigma>)
                   else
                     (let newToken = refresh_token L (mw \<sigma>) now_exp token origIat
                      in case SignedString L newToken (Key (mw \<sigma>)) of
                           Inl err \<Rightarrow> (Return, unauthorized \<sigma>)
                         | Inr tokenString \<Rightarrow>
                             (case index (Claims newToken) ''id'' of
                                VString userId \<Rightarrow>
                                  (let \<sigma>1 = (case StoreToken (mw \<sigma>) of
                                               NilHook \<Rightarrow> \<sigma>
                                             | Hook \<Rightarrow> emit (call_StoreToken (Timeout (mw \<sigma>))
                                                         userId tokenString) \<sigma>);
                                       \<sigma>2 = (case RemoveToken (mw \<sigma>1) of
                                               NilHook \<Rightarrow> \<sigma>1
                                             | Hook \<Rightarrow> emit (call_RemoveToken userId (Raw token)) \<sigma>1)
                                   in run_callback (RefreshCallback (mw \<sigma>2)) call_RefreshCallback
                                        tokenString \<sigma>2)
                              | _ \<Rightarrow> (Panic, \<sigma>))))
           | _ \<Rightarrow> (Panic, \<sigma>)))"

text \<open>
  The effects that make up an error response: setting a header and \<^verbatim>\<open>rest.Error\<close>.
\<close>

fun error_response :: "effect \<Rightarrow> bool" where
  "error_response (Header_Set k v) = True"
| "error_response (rest_Error msg code) = True"
| "error_response e = False"

section \<open>An example deployment\<close>

text \<open>
  An example after the one of the specification: timeout one hour, refresh window two
  hours, a login at second 0 (token A), a refresh at second 3000 (token B), one at
  second 6500 (token C) and one whose expiry is written at second 7201 (token D); a
  token without \<^verbatim>\<open>id\<close>, one without \<^verbatim>\<open>orig_iat\<close>, and one whose \<^verbatim>\<open>orig_iat\<close> is the
  fraction 3/2. The package is a small stand-in: it knows the three HMAC methods,
  decodes a handful of token strings, accepts a signature under the one key, and
  signs, under that key and \<^verbatim>\<open>HS256\<close> only, a token with one of the four expiry times,
  so that what it signs decodes to the method and the expiry that were signed.
\<close>

definition example_key :: bytes where
  "example_key = [115, 101, 99, 114, 101, 116]"

definition example_methods :: "string \<Rightarrow> SigningMethod option" where
  "example_methods alg =
     (if alg = ''HS256'' \<or> alg = ''HS384'' \<or> alg = ''HS512''
      then Some (SigningMethod alg) else None)"

definition token_A :: Token where
  "token_A = \<lparr>Raw = ''tokA'', Method = Some (SigningMethod ''HS256''),
     Claims = [''id'' \<mapsto> VString ''alice'', ''exp'' \<mapsto> VFloat64 3600,
               ''orig_iat'' \<mapsto> VFloat64 0],
     Valid = False\<rparr>"

definition token_B :: Token where
  "token_B = \<lparr>Raw = ''tokB'', Method = Some (SigningMethod ''HS256''),
     Claims = [''id'' \<mapsto> VString ''alice'', ''exp'' \<mapsto> VFloat64 6600,
               ''orig_iat'' \<mapsto> VFloat64 0],
     Valid = False\<rparr>"

definition token_C :: Token where
  "token_C = \<lparr>Raw = ''tokC'', Method = Some (SigningMethod ''HS256''),
     Claims = [''id'' \<mapsto> VString ''alice'', ''exp'' \<mapsto> VFloat64 10100,
               ''orig_iat'' \<mapsto> VFloat64 0],
     Valid = False\<rparr>"

definition token_D :: Token where
  "token_D = \<lparr>Raw = ''tokD'', Method = Some (SigningMethod ''HS256''),
     Claims = [''id'' \<mapsto> VString ''alice'', ''exp'' \<mapsto> VFloat64 10801,
               ''orig_iat'' \<mapsto> VFloat64 0],
     Valid = False\<rparr>"

definition token_anon :: Token where
  "token_anon = \<lparr>Raw = ''anon'', Method = Some (SigningMethod ''HS256''),
     Claims = [''exp'' \<mapsto> VFloat64 3600, ''orig_iat'' \<mapsto> VFloat64 0],
     Valid = False\<rparr>"

definition token_plain :: Token where
  "token_plain = \<lparr>Raw = ''plain'', Method = Some (SigningMethod ''HS256''),
     Claims = [''id'' \<mapsto> VString ''alice'', ''exp'' \<mapsto> VFloat64 3600],
     Valid = False\<rparr>"

definition token_half :: Token where
  "token_half = \<lparr>Raw = ''half'', Method = Some (SigningMethod ''HS256''),
     Claims = [''id'' \<mapsto> VString ''alice'', ''exp'' \<mapsto> VFloat64 3600,
               ''orig_iat'' \<mapsto> VFloat64 (3 / 2)],
     Valid = False\<rparr>"

definition example_dec :: "string \<Rightarrow> Token option" where
  "example_dec s =
     (if s = ''tokA'' then Some token_A
      else if s = ''tokB'' then Some token_B
      else if s = ''tokC'' then Some token_C
      else if s = ''anon'' then Some token_anon
      else if s = ''plain'' then Some token_plain
      else if s = ''tokD'' then Some token_D
      else if s = ''half'' then Some token_half
      else None)"

definition example_ver :: "Token \<Rightarrow> bytes option \<Rightarrow> bool" where
  "example_ver token key = (key = Some example_key)"

definition example_sign :: "Token \<Rightarrow> bytes option \<Rightarrow> error + string" where
  "example_sign token key =
     (if key \<noteq> Some example_key \<or> Method token \<noteq> Some (SigningMethod ''HS256'')
      then Inl (errors_New ''key is invalid'')
      else if index (Claims token) ''exp'' = VInt64 3600 then Inr ''tokA''
      else if index (Claims token) ''exp'' = VInt64 6600 then Inr ''tokB''
      else if index (Claims token) ''exp'' = VInt64 10100 then Inr ''tokC''
      else if index (Claims token) ''exp'' = VInt64 10801 then Inr ''tokD''
      else Inl (errors_New ''key is invalid''))"

definition example_pkg :: jwt_pkg where
  "example_pkg = \<lparr>GetSigningMethod = example_methods,
     Parse = jwt_Parse example_dec example_ver,
     SignedString = example_sign\<rparr>"

definition example_mw :: JWTMiddleware where
  "example_mw = \<lparr>Realm = ''example'', SigningAlgorithm = ''HS256'',
     Key = Some example_key, Timeout = Hour, MaxRefresh = 7200000000000,
     Authenticator = Some (\<lambda>userId password. userId = ''alice'' \<and> password = ''secret''),
     Authorizator = Some (\<lambda>userId request. True),
     StoreToken = NilHook, RemoveToken = NilHook, PayloadFunc = None,
     TokenExtractor = DefaultTokenExtractor, TokenName = ''Authorization'',
     TokenEnvName = ''AUTH_TOKEN'', LoginCallback = DefaultResponseCallback,
     RefreshCallback = DefaultResponseCallback\<rparr>"

text \<open>A request that presents the given token string and whose body is a login.\<close>

definition example_request :: "string \<Rightarrow> Request" where
  "example_request tokenString =
     \<lparr>Header_Get = (\<lambda>name. if name = ''Authorization'' then ''Bearer '' @ tokenString else []),
      Env = Map.empty,
      DecodeJsonPayload = Inr \<lparr>Username = ''alice'', Password = ''secret''\<rparr>\<rparr>"

definition example_state :: "JWTMiddleware \<Rightarrow> string \<Rightarrow> state" where
  "example_state m tokenString = \<lparr>mw = m, request = example_request tokenString, trace = []\<rparr>"

section \<open>Basic facts about the effects\<close>

lemma trace_emit: "trace (emit e \<sigma>) = trace \<sigma> @ [e]"
  by (simp add: emit_def)

lemma mw_emit: "mw (emit e \<sigma>) = mw \<sigma>"
  by (simp add: emit_def)

lemma request_emit: "request (emit e \<sigma>) = request \<sigma>"
  by (simp add: emit_def)

lemma trace_unauthorized:
  "trace (unauthorized \<sigma>) =
     trace \<sigma> @ [Header_Set ''WWW-Authenticate'' (''JWT realm='' @ Realm (mw \<sigma>)),
                 rest_Error ''Not Authorized'' 401]"
  by (simp add: unauthorized_def trace_emit mw_emit)

lemma mw_unauthorized: "mw (unauthorized \<sigma>) = mw \<sigma>"
  by (simp add: unauthorized_def mw_emit)

lemma request_unauthorized: "request (unauthorized \<sigma>) = request \<sigma>"
  by (simp add: unauthorized_def request_emit)

lemma run_callback_cases:
  "run_callback cb custom s \<sigma> = (Panic, \<sigma>) \<and> cb = NilCallback
   \<or> run_callback cb custom s \<sigma> = (Return, emit (WriteJson_resultToken s) \<sigma>)
       \<and> cb = DefaultResponseCallback
   \<or> run_callback cb custom s \<sigma> = (Return, emit (custom s) \<sigma>) \<and> cb = CustomCallback"
  by (cases cb) (simp_all add: run_callback_def defaultResponseCallback_def)

lemma mw_run_callback: "mw (snd (run_callback cb custom s \<sigma>)) = mw \<sigma>"
  using run_callback_cases [of cb custom s \<sigma>] by (auto simp: mw_emit)

text \<open>Negating a duration that is not negative does not wrap around.\<close>

lemma sint_minus_Duration:
  fixes d :: Duration
  assumes "0 \<le> sint d"
  shows "sint (- d) = - sint d"
proof -
  have "sint d < 2 ^ 63"
    using sint_lt [of d] by simp
  with assms have "signed_take_bit 63 (- sint d) = - sint d"
    by (intro signed_take_bit_int_eq_self) simp_all
  then show ?thesis
    by (simp add: sint_word_minus)
qed

text \<open>Rounding down to whole seconds.\<close>

lemma div_le_imp_less:
  fixes k :: int
  assumes "0 < k" and "x div k \<le> t"
  shows "x < (t + 1) * k"
proof -
  have "x = k * (x div k) + x mod k"
    by simp
  moreover have "x mod k < k"
    using assms(1) by simp
  moreover have "k * (x div k) \<le> k * t"
    using assms by (simp add: mult_left_mono)
  ultimately have "x < k * t + k"
    by linarith
  then show ?thesis
    by (simp add: algebra_simps)
qed

lemma div_times_le:
  fixes k :: int
  assumes "0 < k"
  shows "x div k * k \<le> x"
proof -
  have "x = x div k * k + x mod k"
    by simp
  moreover have "0 \<le> x mod k"
    using assms by simp
  ultimately show ?thesis
    by linarith
qed

section \<open>The example deployment, evaluated\<close>

lemma example_state_fields:
  "mw (example_state m s) = m"
  "request (example_state m s) = example_request s"
  "trace (example_state m s) = []"
  by (simp_all add: example_state_def)

lemma example_pkg_fields:
  "GetSigningMethod example_pkg = example_methods"
  "Parse example_pkg = jwt_Parse example_dec example_ver"
  "SignedString example_pkg = example_sign"
  by (simp_all add: example_pkg_def)

lemma Method_login_token:
  "Method (login_token L m now_exp now_iat username) = GetSigningMethod L (SigningAlgorithm m)"
  by (simp add: login_token_def jwt_New_def Let_def split: option.splits)

lemma Method_refresh_token:
  "Method (refresh_token L m now_exp token origIat) = GetSigningMethod L (SigningAlgorithm m)"
  by (simp add: refresh_token_def jwt_New_def Let_def)

lemma example_mw_fields:
  "Realm example_mw = ''example''"
  "SigningAlgorithm example_mw = ''HS256''"
  "Key example_mw = Some example_key"
  "Timeout example_mw = Hour"
  "MaxRefresh example_mw = 7200000000000"
  "Authenticator example_mw
     = Some (\<lambda>userId password. userId = ''alice'' \<and> password = ''secret'')"
  "Authorizator example_mw = Some (\<lambda>userId request. True)"
  "StoreToken example_mw = NilHook"
  "RemoveToken example_mw = NilHook"
  "PayloadFunc example_mw = None"
  "TokenExtractor example_mw = DefaultTokenExtractor"
  "TokenName example_mw = ''Authorization''"
  "TokenEnvName example_mw = ''AUTH_TOKEN''"
  "LoginCallback example_mw = DefaultResponseCallback"
  "RefreshCallback example_mw = DefaultResponseCallback"
  by (simp_all add: example_mw_def)

lemma example_extracts:
  assumes "TokenExtractor m = DefaultTokenExtractor" and "TokenName m = ''Authorization''"
  shows "call_TokenExtractor (example_state m s) = Some (Inr s)"
  using assms
  by (simp add: call_TokenExtractor_def example_state_fields example_request_def
      defaultTokenExtractor_def SplitN_def)

lemma example_parse:
  assumes "TokenExtractor m = DefaultTokenExtractor" and "TokenName m = ''Authorization''"
    and "SigningAlgorithm m = ''HS256''" and "Key m = Some example_key"
    and "example_dec s = Some t" and "Method t = Some (SigningMethod ''HS256'')"
    and "exp_in_future (Claims t) now"
  shows "parseToken example_pkg now (example_state m s) = Some (Inr (t\<lparr>Valid := True\<rparr>))"
proof -
  have "keyfunc example_pkg m t = Inr (Some example_key)"
    using assms(3,4,6) by (simp add: keyfunc_def example_pkg_fields example_methods_def)
  then show ?thesis
    using assms(5,7)
    by (simp add: parseToken_def example_extracts [OF assms(1,2)] example_state_fields
        example_pkg_fields jwt_Parse_def example_ver_def)
qed

lemma example_parse_A:
  "parseToken example_pkg 3000000000000 (example_state example_mw ''tokA'')
     = Some (Inr (token_A\<lparr>Valid := True\<rparr>))"
  by (rule example_parse)
    (simp_all add: example_mw_fields example_dec_def token_A_def exp_in_future_def
      Unix_def int64_def)

lemma example_parse_C:
  "parseToken example_pkg 7300000000000 (example_state example_mw ''tokC'')
     = Some (Inr (token_C\<lparr>Valid := True\<rparr>))"
  by (rule example_parse)
    (simp_all add: example_mw_fields example_dec_def token_C_def exp_in_future_def
      Unix_def int64_def)

lemma example_parse_anon:
  "parseToken example_pkg 3000000000000 (example_state example_mw ''anon'')
     = Some (Inr (token_anon\<lparr>Valid := True\<rparr>))"
  by (rule example_parse)
    (simp_all add: example_mw_fields example_dec_def token_anon_def exp_in_future_def
      Unix_def int64_def)

lemma example_parse_plain:
  "parseToken example_pkg 3000000000000 (example_state example_mw ''plain'')
     = Some (Inr (token_plain\<lparr>Valid := True\<rparr>))"
  by (rule example_parse)
    (simp_all add: example_mw_fields example_dec_def token_plain_def exp_in_future_def
      Unix_def int64_def)

lemma example_parse_garbage:
  "parseToken example_pkg now (example_state example_mw ''garbage'')
     = Some (Inl (errors_New ''token is malformed''))"
  by (simp add: parseToken_def example_extracts example_mw_fields example_pkg_fields
      jwt_Parse_def example_dec_def)


section \<open>The refresh window\<close>

lemma int64_of_int:
  assumes "- (2 ^ 63) \<le> n" and "n < 2 ^ 63"
  shows "int64 (of_int n) = n"
  using assms by (simp add: int64_def)

lemma refresh_token_claims:
  "Claims (refresh_token L m now_exp token origIat) =
     (Claims token)(''id'' \<mapsto> index (Claims token) ''id'',
                    ''exp'' \<mapsto> VInt64 (Unix (Add now_exp (Timeout m))),
                    ''orig_iat'' \<mapsto> VInt64 origIat)"
  by (simp add: refresh_token_def jwt_New_def Let_def)

text \<open>
  What the handler does with a verified token whose numeric \<^verbatim>\<open>orig_iat\<close> passes the
  window check: it signs the rebuilt token; when that fails it rejects; otherwise it
  asserts that \<^verbatim>\<open>id\<close> is a string, calls the storage hooks and emits the signature.
\<close>

lemma RefreshHandler_refreshed:
  assumes "parseToken L now_parse \<sigma> = Some (Inr token)"
    and "Claims token ''orig_iat'' = Some (VFloat64 f)"
    and "\<not> int64 f < Unix (Add now_check (- MaxRefresh (mw \<sigma>)))"
  shows "RefreshHandler L now_parse now_check now_exp \<sigma> =
     (case SignedString L (refresh_token L (mw \<sigma>) now_exp token (int64 f)) (Key (mw \<sigma>)) of
        Inl err \<Rightarrow> (Return, unauthorized \<sigma>)
      | Inr tokenString \<Rightarrow>
          (case index (Claims token) ''id'' of
             VString ident \<Rightarrow>
               run_callback (RefreshCallback (mw \<sigma>)) call_RefreshCallback tokenString
                 (case RemoveToken (mw \<sigma>) of
                    NilHook \<Rightarrow>
                      (case StoreToken (mw \<sigma>) of
                         NilHook \<Rightarrow> \<sigma>
                       | Hook \<Rightarrow> emit (call_StoreToken (Timeout (mw \<sigma>)) ident tokenString) \<sigma>)
                  | Hook \<Rightarrow>
                      emit (call_RemoveToken ident (Raw token))
                        (case StoreToken (mw \<sigma>) of
                           NilHook \<Rightarrow> \<sigma>
                         | Hook \<Rightarrow> emit (call_StoreToken (Timeout (mw \<sigma>)) ident
                                     tokenString) \<sigma>))
           | _ \<Rightarrow> (Panic, \<sigma>)))"
proof -
  have ident: "index (Claims (refresh_token L (mw \<sigma>) now_exp token (int64 f))) ''id''
      = index (Claims token) ''id''"
    by (simp add: refresh_token_claims index_def)
  have iat: "index (Claims token) ''orig_iat'' = VFloat64 f"
    using assms(2) by (simp add: index_def)
  show ?thesis
    using assms(1,3)
    by (cases "SignedString L (refresh_token L (mw \<sigma>) now_exp token (int64 f)) (Key (mw \<sigma>))";
        cases "index (Claims token) ''id''";
        cases "StoreToken (mw \<sigma>)"; cases "RemoveToken (mw \<sigma>)")
      (simp_all add: RefreshHandler_def Let_def iat ident mw_emit)
qed

text \<open>
  After a successful parse, a numeric \<^verbatim>\<open>orig_iat\<close> inside the window and a successful
  signature, the handler either panics or ends with the emission of the new token.
\<close>

lemma RefreshHandler_inside_window:
  assumes "parseToken L now_parse \<sigma> = Some (Inr token)"
    and "Claims token ''orig_iat'' = Some (VFloat64 f)"
    and "\<not> int64 f < Unix (Add now_check (- MaxRefresh (mw \<sigma>)))"
    and "SignedString L (refresh_token L (mw \<sigma>) now_exp token (int64 f)) (Key (mw \<sigma>)) = Inr s"
  shows "fst (RefreshHandler L now_parse now_check now_exp \<sigma>) = Panic
       \<or> last (trace (snd (RefreshHandler L now_parse now_check now_exp \<sigma>)))
             = WriteJson_resultToken s
       \<or> last (trace (snd (RefreshHandler L now_parse now_check now_exp \<sigma>)))
             = call_RefreshCallback s"
  using assms
  by (cases "StoreToken (mw \<sigma>)"; cases "RemoveToken (mw \<sigma>)";
      cases "RefreshCallback (mw \<sigma>)")
    (auto simp: RefreshHandler_def index_def Let_def run_callback_def trace_emit mw_emit
      defaultResponseCallback_def split: interface.splits option.splits)

text \<open>
  The expiry is written from a second reading of the clock, after the one of the window
  check, and both are rounded to seconds. Token C was first issued at second 0; with a
  window of 7200 s and a timeout of 3600 s the check at 7200.999999999 s passes, the
  expiry is computed at 7201.000000001 s, and the token that is signed and emitted
  expires at second 10801, later than 0 + 7200 + 3600.
\<close>

theorem RefreshHandler_lifetime_counterexample:
  "parseToken example_pkg 7200000000000 (example_state example_mw ''tokC'')
     = Some (Inr (token_C\<lparr>Valid := True\<rparr>))
   \<and> Claims (token_C\<lparr>Valid := True\<rparr>) ''orig_iat'' = Some (VFloat64 0)
   \<and> int64 0 = 0
   \<and> sint (MaxRefresh example_mw) = 7200 * 1000000000
   \<and> sint (Timeout example_mw) = 3600 * 1000000000
   \<and> \<not> int64 0 < Unix (Add 7200999999999 (- MaxRefresh example_mw))
   \<and> RefreshHandler example_pkg 7200000000000 7200999999999 7201000000001
         (example_state example_mw ''tokC'')
       = (Return, emit (WriteJson_resultToken ''tokD'') (example_state example_mw ''tokC''))
   \<and> SignedString example_pkg
         (refresh_token example_pkg example_mw 7201000000001 (token_C\<lparr>Valid := True\<rparr>) (int64 0))
         (Key example_mw) = Inr ''tokD''
   \<and> Claims (refresh_token example_pkg example_mw 7201000000001 (token_C\<lparr>Valid := True\<rparr>)
          (int64 0)) ''exp'' = Some (VInt64 10801)
   \<and> (0 + 7200 + 3600 :: int) < 10801"
proof -
  let ?\<sigma> = "example_state example_mw ''tokC''"
  let ?C = "token_C\<lparr>Valid := True\<rparr>"
  let ?new = "refresh_token example_pkg example_mw 7201000000001 ?C (int64 0)"
  have parse: "parseToken example_pkg 7200000000000 ?\<sigma> = Some (Inr ?C)"
    by (rule example_parse)
      (simp_all add: example_mw_fields example_dec_def token_C_def exp_in_future_def
        Unix_def int64_def)
  have iat: "Claims ?C ''orig_iat'' = Some (VFloat64 0)"
    and ident: "index (Claims token_C) ''id'' = VString ''alice''"
    by (simp_all add: token_C_def index_def)
  have durations: "sint (MaxRefresh example_mw) = 7200 * 1000000000"
    "sint (Timeout example_mw) = 3600 * 1000000000"
    by (simp_all add: example_mw_fields Hour_def)
  have inside: "\<not> int64 0 < Unix (Add 7200999999999 (- MaxRefresh (mw ?\<sigma>)))"
    unfolding example_state_fields by (simp add: example_mw_fields int64_def Unix_def Add_def)
  have expiry: "Claims ?new ''exp'' = Some (VInt64 10801)"
    by (simp add: refresh_token_claims example_mw_fields Unix_def Add_def Hour_def)
  have "Method ?new = Some (SigningMethod ''HS256'')"
    unfolding Method_refresh_token example_pkg_fields
    by (simp add: example_mw_fields example_methods_def)
  then have signed: "SignedString example_pkg ?new (Key example_mw) = Inr ''tokD''"
    unfolding example_pkg_fields by (simp add: example_sign_def index_def expiry example_mw_fields)
  have "RefreshHandler example_pkg 7200000000000 7200999999999 7201000000001 ?\<sigma>
      = (Return, emit (WriteJson_resultToken ''tokD'') ?\<sigma>)"
    using RefreshHandler_refreshed [OF parse iat inside, of 7201000000001]
    unfolding example_state_fields
    by (simp add: signed [unfolded example_mw_fields] ident example_mw_fields run_callback_def
        defaultResponseCallback_def)
  with parse iat durations inside expiry signed show ?thesis
    by (simp add: example_state_fields int64_def)
qed

text \<open>
  C1, amended. For a refresh request whose token parses and carries the numeric
  \<^verbatim>\<open>orig_iat\<close> \<open>f\<close> (so \<open>t0 = int64 f\<close>), and whose new token can be signed,
  \<^verbatim>\<open>RefreshHandler\<close> rejects (the uniform unauthorized response and nothing else, no
  token emitted) if and only if \<open>t0 < (now - MaxRefresh).Unix()\<close> at the time of the
  check. The test reads only \<^verbatim>\<open>orig_iat\<close>, the clock and \<^verbatim>\<open>MaxRefresh\<close>, so the window runs
  from the original issuance. When the check passes the handler panics or ends by
  emitting the signature of the token it built, whose \<^verbatim>\<open>exp\<close> is
  \<open>(now' + Timeout).Unix()\<close> for the later clock reading \<open>now'\<close>: for a non-negative
  \<^verbatim>\<open>MaxRefresh\<close> it lies less than \<open>MaxRefresh + Timeout\<close> plus one second of rounding
  plus the delay \<open>now' - now\<close> after \<open>t0\<close>, and at most \<open>MaxRefresh + Timeout\<close> after it
  when both durations are whole seconds and both readings fall in the same second.
\<close>

theorem RefreshHandler_rejects_iff_window_exceeded:
  assumes "parseToken L now_parse \<sigma> = Some (Inr token)"
    and "Claims token ''orig_iat'' = Some (VFloat64 f)"
    and "SignedString L (refresh_token L (mw \<sigma>) now_exp token (int64 f)) (Key (mw \<sigma>)) = Inr s"
  shows "(RefreshHandler L now_parse now_check now_exp \<sigma> = (Return, unauthorized \<sigma>)
            \<longleftrightarrow> int64 f < Unix (Add now_check (- MaxRefresh (mw \<sigma>))))
       \<and> (\<not> int64 f < Unix (Add now_check (- MaxRefresh (mw \<sigma>)))
           \<longrightarrow> fst (RefreshHandler L now_parse now_check now_exp \<sigma>) = Panic
               \<or> last (trace (snd (RefreshHandler L now_parse now_check now_exp \<sigma>)))
                     = WriteJson_resultToken s
               \<or> last (trace (snd (RefreshHandler L now_parse now_check now_exp \<sigma>)))
                     = call_RefreshCallback s)
       \<and> (0 \<le> sint (MaxRefresh (mw \<sigma>))
             \<and> \<not> int64 f < Unix (Add now_check (- MaxRefresh (mw \<sigma>)))
           \<longrightarrow> (\<exists>e. Claims (refresh_token L (mw \<sigma>) now_exp token (int64 f)) ''exp''
                       = Some (VInt64 e)
                  \<and> e * 1000000000
                      < (int64 f + 1) * 1000000000
                        + sint (MaxRefresh (mw \<sigma>)) + sint (Timeout (mw \<sigma>))
                        + (now_exp - now_check)
                  \<and> (\<forall>r t. sint (MaxRefresh (mw \<sigma>)) = r * 1000000000
                           \<and> sint (Timeout (mw \<sigma>)) = t * 1000000000
                           \<and> Unix now_exp = Unix now_check
                        \<longrightarrow> e \<le> int64 f + r + t)))"
proof (intro conjI impI)
  show "RefreshHandler L now_parse now_check now_exp \<sigma> = (Return, unauthorized \<sigma>)
          \<longleftrightarrow> int64 f < Unix (Add now_check (- MaxRefresh (mw \<sigma>)))"
  proof
    assume rejected: "RefreshHandler L now_parse now_check now_exp \<sigma> = (Return, unauthorized \<sigma>)"
    show "int64 f < Unix (Add now_check (- MaxRefresh (mw \<sigma>)))"
    proof (rule ccontr)
      assume inside: "\<not> int64 f < Unix (Add now_check (- MaxRefresh (mw \<sigma>)))"
      from RefreshHandler_inside_window [OF assms(1,2) inside assms(3)] rejected
      show False
        by (auto simp: trace_unauthorized)
    qed
  next
    assume "int64 f < Unix (Add now_check (- MaxRefresh (mw \<sigma>)))"
    with assms(1,2)
    show "RefreshHandler L now_parse now_check now_exp \<sigma> = (Return, unauthorized \<sigma>)"
      by (simp add: RefreshHandler_def index_def)
  qed
next
  assume "\<not> int64 f < Unix (Add now_check (- MaxRefresh (mw \<sigma>)))"
  then show "fst (RefreshHandler L now_parse now_check now_exp \<sigma>) = Panic
       \<or> last (trace (snd (RefreshHandler L now_parse now_check now_exp \<sigma>)))
             = WriteJson_resultToken s
       \<or> last (trace (snd (RefreshHandler L now_parse now_check now_exp \<sigma>)))
             = call_RefreshCallback s"
    by (rule RefreshHandler_inside_window [OF assms(1,2) _ assms(3)])
next
  assume h: "0 \<le> sint (MaxRefresh (mw \<sigma>))
             \<and> \<not> int64 f < Unix (Add now_check (- MaxRefresh (mw \<sigma>)))"
  let ?R = "sint (MaxRefresh (mw \<sigma>))" and ?T = "sint (Timeout (mw \<sigma>))"
  let ?e = "Unix (Add now_exp (Timeout (mw \<sigma>)))"
  from h have neg: "sint (- MaxRefresh (mw \<sigma>)) = - ?R"
    by (simp add: sint_minus_Duration)
  from h have passed: "(now_check - ?R) div 1000000000 \<le> int64 f"
    by (simp add: Unix_def Add_def neg)
  have e: "?e = (now_exp + ?T) div 1000000000"
    by (simp add: Unix_def Add_def)
  have early: "now_check - ?R < (int64 f + 1) * 1000000000"
    using passed by (intro div_le_imp_less) simp_all
  have "?e * 1000000000 \<le> now_exp + ?T"
    unfolding e by (intro div_times_le) simp
  with early have bound:
    "?e * 1000000000 < (int64 f + 1) * 1000000000 + ?R + ?T + (now_exp - now_check)"
    by linarith
  have whole: "?e \<le> int64 f + r + t"
    if "?R = r * 1000000000 \<and> ?T = t * 1000000000 \<and> Unix now_exp = Unix now_check" for r t
  proof -
    have "(now_check - r * 1000000000) div 1000000000 = now_check div 1000000000 - r"
      using div_mult_self1 [of "1000000000 :: int" now_check "- r"] by (simp add: algebra_simps)
    moreover have "(now_exp + t * 1000000000) div 1000000000 = now_exp div 1000000000 + t"
      by simp
    moreover from that have "now_exp div 1000000000 = now_check div 1000000000"
      by (simp add: Unix_def)
    ultimately show ?thesis
      using passed that unfolding e by simp
  qed
  have "Claims (refresh_token L (mw \<sigma>) now_exp token (int64 f)) ''exp'' = Some (VInt64 ?e)"
    by (simp add: refresh_token_def Let_def)
  with bound whole
  show "\<exists>e. Claims (refresh_token L (mw \<sigma>) now_exp token (int64 f)) ''exp'' = Some (VInt64 e)
          \<and> e * 1000000000 < (int64 f + 1) * 1000000000 + ?R + ?T + (now_exp - now_check)
          \<and> (\<forall>r t. ?R = r * 1000000000 \<and> ?T = t * 1000000000 \<and> Unix now_exp = Unix now_check
                \<longrightarrow> e \<le> int64 f + r + t)"
    by blast
qed

theorem RefreshHandler_rejects_iff_window_exceeded_witness:
  "RefreshHandler example_pkg 7201000000000 7201000000000 7201000000000
       (example_state example_mw ''tokC'')
     = (Return, unauthorized (example_state example_mw ''tokC''))
   \<and> RefreshHandler example_pkg 3000000000000 3000000000000 3000000000000
       (example_state example_mw ''tokA'')
     \<noteq> (Return, unauthorized (example_state example_mw ''tokA''))
   \<and> (\<exists>e. Claims (refresh_token example_pkg example_mw 3000000000000
               (token_A\<lparr>Valid := True\<rparr>) (int64 0)) ''exp'' = Some (VInt64 e)
          \<and> e \<le> 0 + 7200 + 3600)"
proof -
  let ?late = "7201000000000 :: Time" and ?early = "3000000000000 :: Time"
  let ?\<sigma>C = "example_state example_mw ''tokC''" and ?\<sigma>A = "example_state example_mw ''tokA''"
  have m: "mw (example_state example_mw s) = example_mw" for s
    by (simp add: example_state_def)
  have parseC: "parseToken example_pkg ?late ?\<sigma>C = Some (Inr (token_C\<lparr>Valid := True\<rparr>))"
    by (rule example_parse)
      (simp_all add: example_mw_fields example_dec_def token_C_def exp_in_future_def
        Unix_def int64_def)
  have iatC: "Claims (token_C\<lparr>Valid := True\<rparr>) ''orig_iat'' = Some (VFloat64 0)"
    by (simp add: token_C_def)
  have signC: "SignedString example_pkg
      (refresh_token example_pkg (mw ?\<sigma>C) ?late (token_C\<lparr>Valid := True\<rparr>) (int64 0))
      (Key (mw ?\<sigma>C)) = Inr ''tokD''"
    unfolding m by (simp add: example_pkg_def example_sign_def example_mw_def refresh_token_def
        jwt_New_def example_methods_def index_def Unix_def Add_def Hour_def)
  have lateC: "int64 0 < Unix (Add ?late (- MaxRefresh (mw ?\<sigma>C)))"
    unfolding m by (simp add: example_mw_def int64_def Unix_def Add_def)
  from RefreshHandler_rejects_iff_window_exceeded [OF parseC iatC signC, of ?late] lateC
  have rejected: "RefreshHandler example_pkg ?late ?late ?late ?\<sigma>C = (Return, unauthorized ?\<sigma>C)"
    by blast
  note parseA = example_parse_A
  have iatA: "Claims (token_A\<lparr>Valid := True\<rparr>) ''orig_iat'' = Some (VFloat64 0)"
    by (simp add: token_A_def)
  have signA: "SignedString example_pkg
      (refresh_token example_pkg (mw ?\<sigma>A) ?early (token_A\<lparr>Valid := True\<rparr>) (int64 0))
      (Key (mw ?\<sigma>A)) = Inr ''tokB''"
    unfolding m by (simp add: example_pkg_def example_sign_def example_mw_def refresh_token_def
        jwt_New_def example_methods_def index_def Unix_def Add_def Hour_def)
  have earlyA: "\<not> int64 0 < Unix (Add ?early (- MaxRefresh (mw ?\<sigma>A)))"
    unfolding m by (simp add: example_mw_def int64_def Unix_def Add_def)
  have window: "0 \<le> sint (MaxRefresh (mw ?\<sigma>A))"
    and durations: "sint (MaxRefresh (mw ?\<sigma>A)) = 7200 * 1000000000
      \<and> sint (Timeout (mw ?\<sigma>A)) = 3600 * 1000000000 \<and> Unix ?early = Unix ?early"
    unfolding m by (simp_all add: example_mw_fields Hour_def)
  note facts = RefreshHandler_rejects_iff_window_exceeded [OF parseA iatA signA, of ?early]
  from facts earlyA
  have accepted: "RefreshHandler example_pkg ?early ?early ?early ?\<sigma>A \<noteq> (Return, unauthorized ?\<sigma>A)"
    by blast
  from facts window earlyA
  obtain e where e: "Claims (refresh_token example_pkg (mw ?\<sigma>A) ?early
        (token_A\<lparr>Valid := True\<rparr>) (int64 0)) ''exp'' = Some (VInt64 e)"
    and whole: "\<forall>r t. sint (MaxRefresh (mw ?\<sigma>A)) = r * 1000000000
        \<and> sint (Timeout (mw ?\<sigma>A)) = t * 1000000000 \<and> Unix ?early = Unix ?early
      \<longrightarrow> e \<le> int64 0 + r + t"
    by blast
  from whole durations have "e \<le> int64 0 + 7200 + 3600"
    by blast
  then have "e \<le> 0 + 7200 + 3600"
    by (simp add: int64_def)
  with e have "\<exists>e. Claims (refresh_token example_pkg example_mw ?early
        (token_A\<lparr>Valid := True\<rparr>) (int64 0)) ''exp'' = Some (VInt64 e) \<and> e \<le> 0 + 7200 + 3600"
    unfolding m by blast
  with rejected accepted show ?thesis
    by blast
qed

section \<open>The gate and the \<^verbatim>\<open>id\<close> claim\<close>

text \<open>
  C2, as stated, fails: a token that parses and verifies but has no \<^verbatim>\<open>id\<close> makes
  the gate panic; no unauthorized response is written.
\<close>

theorem middlewareImpl_missing_id_counterexample:
  "parseToken example_pkg 3000000000000 (example_state example_mw ''anon'')
     = Some (Inr (token_anon\<lparr>Valid := True\<rparr>))
   \<and> Claims (token_anon\<lparr>Valid := True\<rparr>) ''id'' = None
   \<and> fst (middlewareImpl example_pkg 3000000000000 (example_state example_mw ''anon'')) = Panic
   \<and> middlewareImpl example_pkg 3000000000000 (example_state example_mw ''anon'')
       \<noteq> (Return, unauthorized (example_state example_mw ''anon''))"
  by (simp add: example_parse_anon middlewareImpl_def index_def) (simp add: token_anon_def)

text \<open>
  C2, amended. For a request whose token parses and verifies at the gate: when the
  \<^verbatim>\<open>id\<close> claim is a string, the gate binds identity, claims and raw token in the
  environment, calls the Authorizator, and rejects with the uniform unauthorized
  response exactly when the Authorizator returns false (otherwise it calls the wrapped
  handler); when \<^verbatim>\<open>id\<close> is missing or not a string, the gate does not reject: the
  unchecked type assertion panics, with nothing written and the environment untouched.
\<close>

theorem middlewareImpl_id_assertion:
  assumes "parseToken L now \<sigma> = Some (Inr token)"
  shows "((\<forall>ident. Claims token ''id'' \<noteq> Some (VString ident))
            \<longrightarrow> middlewareImpl L now \<sigma> = (Panic, \<sigma>))
       \<and> (\<forall>ident authorize \<sigma>1.
            Claims token ''id'' = Some (VString ident)
            \<and> Authorizator (mw \<sigma>) = Some authorize
            \<and> \<sigma>1 = \<sigma>\<lparr>request := (request \<sigma>)
                        \<lparr>Env := bind_env (mw \<sigma>) token ident (Env (request \<sigma>))\<rparr>\<rparr>
            \<longrightarrow> (\<not> authorize ident (request \<sigma>1)
                   \<longrightarrow> middlewareImpl L now \<sigma>
                         = (Return, unauthorized (emit (call_Authorizator ident) \<sigma>1)))
                \<and> (authorize ident (request \<sigma>1)
                   \<longrightarrow> middlewareImpl L now \<sigma>
                         = (Return, emit (call_handler (Env (request \<sigma>1)))
                                      (emit (call_Authorizator ident) \<sigma>1))))"
proof (intro conjI impI allI)
  assume "\<forall>ident. Claims token ''id'' \<noteq> Some (VString ident)"
  then have "\<And>ident. index (Claims token) ''id'' \<noteq> VString ident"
    by (auto simp: index_def split: option.splits)
  with assms show "middlewareImpl L now \<sigma> = (Panic, \<sigma>)"
    by (cases "index (Claims token) ''id''") (auto simp: middlewareImpl_def)
next
  fix ident authorize \<sigma>1
  assume h: "Claims token ''id'' = Some (VString ident)
      \<and> Authorizator (mw \<sigma>) = Some authorize
      \<and> \<sigma>1 = \<sigma>\<lparr>request := (request \<sigma>)
                  \<lparr>Env := bind_env (mw \<sigma>) token ident (Env (request \<sigma>))\<rparr>\<rparr>"
  {
    assume "\<not> authorize ident (request \<sigma>1)"
    with assms h
    show "middlewareImpl L now \<sigma> = (Return, unauthorized (emit (call_Authorizator ident) \<sigma>1))"
      by (simp add: middlewareImpl_def index_def Let_def)
  next
    assume "authorize ident (request \<sigma>1)"
    with assms h
    show "middlewareImpl L now \<sigma>
        = (Return, emit (call_handler (Env (request \<sigma>1))) (emit (call_Authorizator ident) \<sigma>1))"
      by (simp add: middlewareImpl_def index_def Let_def request_emit)
  }
qed

theorem middlewareImpl_id_assertion_witness:
  "middlewareImpl example_pkg 3000000000000 (example_state example_mw ''anon'')
     = (Panic, example_state example_mw ''anon'')
   \<and> fst (middlewareImpl example_pkg 3000000000000 (example_state example_mw ''tokA''))
       = Return
   \<and> last (trace (snd (middlewareImpl example_pkg 3000000000000
          (example_state example_mw ''tokA''))))
       = call_handler [''REMOTE_USER'' \<mapsto> VString ''alice'',
           ''JWT_PAYLOAD'' \<mapsto> VMap (Some (Claims token_A)),
           ''AUTH_TOKEN'' \<mapsto> VString ''tokA'']"
proof -
  let ?\<sigma> = "example_state example_mw ''tokA''"
  let ?A = "token_A\<lparr>Valid := True\<rparr>"
  let ?\<sigma>1 = "?\<sigma>\<lparr>request := (request ?\<sigma>)
      \<lparr>Env := bind_env (mw ?\<sigma>) ?A ''alice'' (Env (request ?\<sigma>))\<rparr>\<rparr>"
  have "\<forall>ident. Claims (token_anon\<lparr>Valid := True\<rparr>) ''id'' \<noteq> Some (VString ident)"
    by (simp add: token_anon_def)
  with middlewareImpl_id_assertion [OF example_parse_anon]
  have panic: "middlewareImpl example_pkg 3000000000000 (example_state example_mw ''anon'')
      = (Panic, example_state example_mw ''anon'')"
    by blast
  have "Claims ?A ''id'' = Some (VString ''alice'')"
    and "Authorizator (mw ?\<sigma>) = Some (\<lambda>userId request. True)"
    and "(\<lambda>userId request. True) ''alice'' (request ?\<sigma>1)"
    by (simp_all add: token_A_def example_state_fields example_mw_fields)
  with middlewareImpl_id_assertion [OF example_parse_A]
  have "middlewareImpl example_pkg 3000000000000 ?\<sigma>
      = (Return, emit (call_handler (Env (request ?\<sigma>1))) (emit (call_Authorizator ''alice'') ?\<sigma>1))"
    by blast
  moreover have "Env (request ?\<sigma>1)
      = [''REMOTE_USER'' \<mapsto> VString ''alice'', ''JWT_PAYLOAD'' \<mapsto> VMap (Some (Claims token_A)),
         ''AUTH_TOKEN'' \<mapsto> VString ''tokA'']"
    by (simp add: bind_env_def example_state_fields example_mw_fields example_request_def
        token_A_def)
  ultimately show ?thesis
    using panic by (simp add: trace_emit)
qed


section \<open>Token verification\<close>

text \<open>The key function of \<^verbatim>\<open>parseToken\<close>: an error exactly for a method that is not
  the configured one, and the configured key otherwise.\<close>

lemma keyfunc_result:
  "keyfunc L m token =
     (if GetSigningMethod L (SigningAlgorithm m) = Method token then Inr (Key m)
      else Inl (errors_New ''Invalid signing algorithm''))"
  by (simp add: keyfunc_def)

text \<open>
  C3. With \<^verbatim>\<open>jwt.Parse\<close> as the specification describes it, for every presented token
  (the extractor yields a string and the string decodes to a token) \<^verbatim>\<open>parseToken\<close>
  returns an error exactly when the token's signing method is not the configured one,
  or its signature does not verify under the configured key, or its \<^verbatim>\<open>exp\<close> is not
  strictly in the future; a token that passes all three is returned, marked valid.
\<close>

theorem parseToken_error_iff:
  assumes "Parse L = jwt_Parse dec ver"
    and "call_TokenExtractor \<sigma> = Some (Inr tokenString)"
    and "dec tokenString = Some token"
  shows "((\<exists>err. parseToken L now \<sigma> = Some (Inl err))
            \<longleftrightarrow> GetSigningMethod L (SigningAlgorithm (mw \<sigma>)) \<noteq> Method token
                \<or> \<not> ver token (Key (mw \<sigma>))
                \<or> \<not> (\<exists>e. Claims token ''exp'' = Some (VFloat64 e) \<and> Unix now < int64 e))
       \<and> (GetSigningMethod L (SigningAlgorithm (mw \<sigma>)) = Method token
            \<and> ver token (Key (mw \<sigma>))
            \<and> (\<exists>e. Claims token ''exp'' = Some (VFloat64 e) \<and> Unix now < int64 e)
           \<longrightarrow> parseToken L now \<sigma> = Some (Inr (token\<lparr>Valid := True\<rparr>)))"
proof -
  have future: "exp_in_future (Claims token) now
      \<longleftrightarrow> (\<exists>e. Claims token ''exp'' = Some (VFloat64 e) \<and> Unix now < int64 e)"
    by (auto simp: exp_in_future_def split: option.splits interface.splits)
  have parse: "parseToken L now \<sigma> = Some (jwt_Parse dec ver tokenString (keyfunc L (mw \<sigma>)) now)"
    using assms(1,2) by (simp add: parseToken_def)
  show ?thesis
    unfolding parse future [symmetric]
    using assms(3) by (simp add: jwt_Parse_def keyfunc_result)
qed

theorem parseToken_error_iff_witness:
  "parseToken example_pkg 3000000000000 (example_state example_mw ''tokA'')
     = Some (Inr (token_A\<lparr>Valid := True\<rparr>))
   \<and> (\<exists>err. parseToken example_pkg 3600000000000 (example_state example_mw ''tokA'')
               = Some (Inl err))"
proof -
  let ?\<sigma> = "example_state example_mw ''tokA''"
  have extracted: "call_TokenExtractor ?\<sigma> = Some (Inr ''tokA'')"
    by (rule example_extracts) (simp_all add: example_mw_fields)
  have decoded: "example_dec ''tokA'' = Some token_A"
    by (simp add: example_dec_def)
  note facts = parseToken_error_iff [OF example_pkg_fields(2) extracted decoded,
      unfolded example_state_fields example_pkg_fields]
  have signing: "example_methods (SigningAlgorithm example_mw) = Method token_A"
    and verified: "example_ver token_A (Key example_mw)"
    by (simp_all add: example_methods_def example_mw_def token_A_def example_ver_def)
  have "\<exists>e. Claims token_A ''exp'' = Some (VFloat64 e) \<and> Unix 3000000000000 < int64 e"
    by (simp add: token_A_def Unix_def int64_def)
  with facts [of 3000000000000] signing verified
  have accepted: "parseToken example_pkg 3000000000000 ?\<sigma> = Some (Inr (token_A\<lparr>Valid := True\<rparr>))"
    by blast
  have "\<not> (\<exists>e. Claims token_A ''exp'' = Some (VFloat64 e) \<and> Unix 3600000000000 < int64 e)"
    by (simp add: token_A_def Unix_def int64_def)
  with facts [of 3600000000000]
  have "\<exists>err. parseToken example_pkg 3600000000000 ?\<sigma> = Some (Inl err)"
    by blast
  with accepted show ?thesis
    by simp
qed


section \<open>The claims of an issued token\<close>

lemma login_token_claims:
  "Claims (login_token L m now_exp now_iat username) =
     (let provided = (case PayloadFunc m of None \<Rightarrow> Map.empty | Some payload \<Rightarrow> payload username);
          claims = provided(''id'' \<mapsto> VString username,
                            ''exp'' \<mapsto> VInt64 (Unix (Add now_exp (Timeout m))))
      in if MaxRefresh m \<noteq> 0 then claims(''orig_iat'' \<mapsto> VInt64 (Unix now_iat)) else claims)"
  by (cases "PayloadFunc m") (simp_all add: login_token_def jwt_New_def Let_def)

lemma LoginHandler_authenticated:
  assumes "DecodeJsonPayload (request \<sigma>) = Inr loginVals"
    and "Authenticator (mw \<sigma>) = Some authenticate"
    and "authenticate (Username loginVals) (Password loginVals)"
    and "\<sigma>1 = emit (call_Authenticator (Username loginVals) (Password loginVals)) \<sigma>"
  shows "LoginHandler L now_exp now_iat \<sigma> =
     (case SignedString L (login_token L (mw \<sigma>) now_exp now_iat (Username loginVals))
             (Key (mw \<sigma>)) of
        Inl err \<Rightarrow> (Return, unauthorized \<sigma>1)
      | Inr tokenString \<Rightarrow>
          run_callback (LoginCallback (mw \<sigma>)) call_LoginCallback tokenString
            (case StoreToken (mw \<sigma>) of
               NilHook \<Rightarrow> \<sigma>1
             | Hook \<Rightarrow> emit (call_StoreToken (Timeout (mw \<sigma>)) (Username loginVals)
                         tokenString) \<sigma>1))"
  using assms
  by (cases "StoreToken (mw \<sigma>)")
    (simp_all add: LoginHandler_def Let_def mw_emit split: sum.splits)

text \<open>
  C4, as stated, fails for \<^verbatim>\<open>orig_iat\<close> when refresh is disabled: with
  \<^verbatim>\<open>MaxRefresh == 0\<close> the handler does not assign the key, so an \<^verbatim>\<open>orig_iat\<close> entry of
  the payload function is neither overwritten nor absent. The login of the example
  user then issues a token whose \<^verbatim>\<open>orig_iat\<close> is the provider's 5.
\<close>

theorem LoginHandler_provider_orig_iat_counterexample:
  "MaxRefresh (example_mw\<lparr>MaxRefresh := 0,
       PayloadFunc := Some (\<lambda>userId. [''orig_iat'' \<mapsto> VInt64 5])\<rparr>) = 0
   \<and> LoginHandler example_pkg 0 0
       (example_state (example_mw\<lparr>MaxRefresh := 0,
          PayloadFunc := Some (\<lambda>userId. [''orig_iat'' \<mapsto> VInt64 5])\<rparr>) [])
       = (Return, emit (WriteJson_resultToken ''tokA'')
                    (emit (call_Authenticator ''alice'' ''secret'')
                       (example_state (example_mw\<lparr>MaxRefresh := 0,
                          PayloadFunc := Some (\<lambda>userId. [''orig_iat'' \<mapsto> VInt64 5])\<rparr>) [])))
   \<and> SignedString example_pkg
        (login_token example_pkg (example_mw\<lparr>MaxRefresh := 0,
           PayloadFunc := Some (\<lambda>userId. [''orig_iat'' \<mapsto> VInt64 5])\<rparr>) 0 0 ''alice'')
        (Some example_key) = Inr ''tokA''
   \<and> Claims (login_token example_pkg (example_mw\<lparr>MaxRefresh := 0,
          PayloadFunc := Some (\<lambda>userId. [''orig_iat'' \<mapsto> VInt64 5])\<rparr>) 0 0 ''alice'')
        ''orig_iat'' = Some (VInt64 5)"
proof -
  let ?m = "example_mw\<lparr>MaxRefresh := 0,
      PayloadFunc := Some (\<lambda>userId. [''orig_iat'' \<mapsto> VInt64 5])\<rparr>"
  let ?\<sigma> = "example_state ?m []"
  have claims: "Claims (login_token example_pkg ?m 0 0 ''alice'')
      = [''orig_iat'' \<mapsto> VInt64 5, ''id'' \<mapsto> VString ''alice'', ''exp'' \<mapsto> VInt64 3600]"
    by (simp add: login_token_claims example_mw_def Unix_def Add_def Hour_def)
  have "Method (login_token example_pkg ?m 0 0 ''alice'') = Some (SigningMethod ''HS256'')"
    unfolding Method_login_token example_pkg_fields
    by (simp add: example_methods_def example_mw_def)
  then have signed: "SignedString example_pkg (login_token example_pkg ?m 0 0 ''alice'')
      (Some example_key) = Inr ''tokA''"
    unfolding example_pkg_fields by (simp add: example_sign_def index_def claims)
  have fields: "Key ?m = Some example_key" "StoreToken ?m = NilHook"
    "LoginCallback ?m = DefaultResponseCallback"
    "Authenticator ?m = Some (\<lambda>userId password. userId = ''alice'' \<and> password = ''secret'')"
    "DecodeJsonPayload (example_request []) = Inr \<lparr>Username = ''alice'', Password = ''secret''\<rparr>"
    by (simp_all add: example_mw_def example_request_def)
  have "LoginHandler example_pkg 0 0 ?\<sigma>
      = (case SignedString example_pkg (login_token example_pkg (mw ?\<sigma>) 0 0
                 (Username \<lparr>Username = ''alice'', Password = ''secret''\<rparr>)) (Key (mw ?\<sigma>)) of
           Inl err \<Rightarrow> (Return, unauthorized (emit (call_Authenticator ''alice'' ''secret'') ?\<sigma>))
         | Inr tokenString \<Rightarrow>
             run_callback (LoginCallback (mw ?\<sigma>)) call_LoginCallback tokenString
               (case StoreToken (mw ?\<sigma>) of
                  NilHook \<Rightarrow> emit (call_Authenticator ''alice'' ''secret'') ?\<sigma>
                | Hook \<Rightarrow> emit (call_StoreToken (Timeout (mw ?\<sigma>))
                            (Username \<lparr>Username = ''alice'', Password = ''secret''\<rparr>)
                            tokenString) (emit (call_Authenticator ''alice'' ''secret'') ?\<sigma>)))"
    by (rule LoginHandler_authenticated [where authenticate
          = "\<lambda>userId password. userId = ''alice'' \<and> password = ''secret''"])
      (simp_all add: example_state_fields fields)
  then have "LoginHandler example_pkg 0 0 ?\<sigma>
      = (Return, emit (WriteJson_resultToken ''tokA'')
                   (emit (call_Authenticator ''alice'' ''secret'') ?\<sigma>))"
    unfolding example_state_fields fields
    by (simp add: signed run_callback_def defaultResponseCallback_def)
  moreover have "MaxRefresh ?m = 0"
    by simp
  ultimately show ?thesis
    using signed claims by simp
qed

text \<open>
  C4, amended. For a login with username \<open>u\<close> accepted by the Authenticator, the token
  whose signature \<^verbatim>\<open>LoginHandler\<close> stores and emits has claims built by first inserting
  every entry of the payload function's map for \<open>u\<close> (when configured) and then
  assigning \<^verbatim>\<open>id = u\<close> and \<^verbatim>\<open>exp = (now + Timeout).Unix()\<close>, which overwrite a colliding
  provider key, and, only when \<^verbatim>\<open>MaxRefresh != 0\<close>, \<^verbatim>\<open>orig_iat = now.Unix()\<close>. When
  \<^verbatim>\<open>MaxRefresh == 0\<close> the handler does not touch \<^verbatim>\<open>orig_iat\<close>: the token has one only
  if the provider supplied it, with the provider's value. Every other key is the
  provider's.
\<close>

theorem LoginHandler_token_claims:
  assumes "DecodeJsonPayload (request \<sigma>) = Inr loginVals"
    and "Authenticator (mw \<sigma>) = Some authenticate"
    and "authenticate (Username loginVals) (Password loginVals)"
    and "token = login_token L (mw \<sigma>) now_exp now_iat (Username loginVals)"
    and "provided = (case PayloadFunc (mw \<sigma>) of
                       None \<Rightarrow> Map.empty
                     | Some payload \<Rightarrow> payload (Username loginVals))"
    and "\<sigma>1 = emit (call_Authenticator (Username loginVals) (Password loginVals)) \<sigma>"
  shows "LoginHandler L now_exp now_iat \<sigma> =
           (case SignedString L token (Key (mw \<sigma>)) of
              Inl err \<Rightarrow> (Return, unauthorized \<sigma>1)
            | Inr tokenString \<Rightarrow>
                run_callback (LoginCallback (mw \<sigma>)) call_LoginCallback tokenString
                  (case StoreToken (mw \<sigma>) of
                     NilHook \<Rightarrow> \<sigma>1
                   | Hook \<Rightarrow> emit (call_StoreToken (Timeout (mw \<sigma>)) (Username loginVals)
                               tokenString) \<sigma>1))
       \<and> Claims token ''id'' = Some (VString (Username loginVals))
       \<and> Claims token ''exp'' = Some (VInt64 (Unix (Add now_exp (Timeout (mw \<sigma>)))))
       \<and> (MaxRefresh (mw \<sigma>) \<noteq> 0
            \<longrightarrow> Claims token ''orig_iat'' = Some (VInt64 (Unix now_iat)))
       \<and> (MaxRefresh (mw \<sigma>) = 0 \<longrightarrow> Claims token ''orig_iat'' = provided ''orig_iat'')
       \<and> (\<forall>k. k \<noteq> ''id'' \<and> k \<noteq> ''exp'' \<and> k \<noteq> ''orig_iat''
              \<longrightarrow> Claims token k = provided k)
       \<and> (PayloadFunc (mw \<sigma>) = None \<and> MaxRefresh (mw \<sigma>) = 0
            \<longrightarrow> Claims token ''orig_iat'' = None)"
proof -
  have claims: "Claims token =
      (let claims = provided(''id'' \<mapsto> VString (Username loginVals),
                             ''exp'' \<mapsto> VInt64 (Unix (Add now_exp (Timeout (mw \<sigma>)))))
       in if MaxRefresh (mw \<sigma>) \<noteq> 0 then claims(''orig_iat'' \<mapsto> VInt64 (Unix now_iat))
          else claims)"
    unfolding assms(4,5) login_token_claims by (simp add: Let_def)
  have run: "LoginHandler L now_exp now_iat \<sigma> =
      (case SignedString L token (Key (mw \<sigma>)) of
         Inl err \<Rightarrow> (Return, unauthorized \<sigma>1)
       | Inr tokenString \<Rightarrow>
           run_callback (LoginCallback (mw \<sigma>)) call_LoginCallback tokenString
             (case StoreToken (mw \<sigma>) of
                NilHook \<Rightarrow> \<sigma>1
              | Hook \<Rightarrow> emit (call_StoreToken (Timeout (mw \<sigma>)) (Username loginVals)
                          tokenString) \<sigma>1))"
    unfolding assms(4) by (rule LoginHandler_authenticated [OF assms(1,2,3,6)])
  have "PayloadFunc (mw \<sigma>) = None \<Longrightarrow> provided ''orig_iat'' = None"
    by (simp add: assms(5))
  with run show ?thesis
    by (simp add: claims Let_def)
qed

theorem LoginHandler_token_claims_witness:
  "Claims (login_token example_pkg example_mw 0 0 ''alice'') ''id'' = Some (VString ''alice'')
   \<and> Claims (login_token example_pkg example_mw 0 0 ''alice'') ''exp'' = Some (VInt64 3600)
   \<and> Claims (login_token example_pkg example_mw 0 0 ''alice'') ''orig_iat'' = Some (VInt64 0)"
proof -
  let ?\<sigma> = "example_state example_mw []"
  let ?login = "\<lparr>Username = ''alice'', Password = ''secret''\<rparr>"
  let ?check = "\<lambda>userId password. userId = ''alice'' \<and> password = ''secret''"
  have body: "DecodeJsonPayload (request ?\<sigma>) = Inr ?login"
    unfolding example_state_fields by (simp add: example_request_def)
  have auth: "Authenticator (mw ?\<sigma>) = Some ?check"
    unfolding example_state_fields by (simp add: example_mw_def)
  have ok: "?check (Username ?login) (Password ?login)"
    by simp
  have numbers: "MaxRefresh example_mw \<noteq> 0" "Unix (Add 0 (Timeout example_mw)) = 3600"
    "Unix 0 = 0"
    by (simp_all add: example_mw_def Unix_def Add_def Hour_def)
  from LoginHandler_token_claims [OF body auth ok refl refl refl, of example_pkg 0 0]
  have "Claims (login_token example_pkg example_mw 0 0 ''alice'') ''id'' = Some (VString ''alice'')
      \<and> Claims (login_token example_pkg example_mw 0 0 ''alice'') ''exp''
          = Some (VInt64 (Unix (Add 0 (Timeout example_mw))))
      \<and> (MaxRefresh example_mw \<noteq> 0
          \<longrightarrow> Claims (login_token example_pkg example_mw 0 0 ''alice'') ''orig_iat''
                = Some (VInt64 (Unix 0)))"
    unfolding example_state_fields by simp
  with numbers show ?thesis
    by simp
qed


section \<open>The token produced by a refresh\<close>

lemma example_sign_strings:
  assumes "example_sign token key = Inr s"
  shows "key = Some example_key \<and> Method token = Some (SigningMethod ''HS256'')
     \<and> (s = ''tokA'' \<and> index (Claims token) ''exp'' = VInt64 3600
        \<or> s = ''tokB'' \<and> index (Claims token) ''exp'' = VInt64 6600
        \<or> s = ''tokC'' \<and> index (Claims token) ''exp'' = VInt64 10100
        \<or> s = ''tokD'' \<and> index (Claims token) ''exp'' = VInt64 10801)"
proof -
  have key: "key = Some example_key \<and> Method token = Some (SigningMethod ''HS256'')"
    using assms unfolding example_sign_def by (cases "key \<noteq> Some example_key \<or> Method token \<noteq> Some (SigningMethod ''HS256'')") simp_all
  show ?thesis
  proof (cases "index (Claims token) ''exp'' = VInt64 3600")
    case True
    with assms key show ?thesis unfolding example_sign_def by simp
  next
    case a: False
    show ?thesis
    proof (cases "index (Claims token) ''exp'' = VInt64 6600")
      case True
      with assms key a show ?thesis unfolding example_sign_def by simp
    next
      case b: False
      show ?thesis
      proof (cases "index (Claims token) ''exp'' = VInt64 10100")
        case True
        with assms key a b show ?thesis unfolding example_sign_def by simp
      next
        case c: False
        show ?thesis
        proof (cases "index (Claims token) ''exp'' = VInt64 10801")
          case True
          with assms key a b c show ?thesis unfolding example_sign_def by simp
        next
          case False
          with assms key a b c show ?thesis unfolding example_sign_def by simp
        qed
      qed
    qed
  qed
qed

lemma example_sign_round_trip:
  assumes "SignedString example_pkg token key = Inr s"
  shows "\<exists>d. example_dec s = Some d \<and> Method d = Method token \<and> example_ver d key
           \<and> (\<forall>n. Claims token ''exp'' = Some (VInt64 n)
                  \<longrightarrow> Claims d ''exp'' = Some (VFloat64 (of_int n)))"
proof -
  from assms have "example_sign token key = Inr s"
    by (simp add: example_pkg_fields)
  note signed = example_sign_strings [OF this]
  from signed have key: "example_ver d key" for d
    by (simp add: example_ver_def)
  from signed
  have signing: "Method token = Some (SigningMethod ''HS256'')"
    and strings: "s = ''tokA'' \<and> index (Claims token) ''exp'' = VInt64 3600
        \<or> s = ''tokB'' \<and> index (Claims token) ''exp'' = VInt64 6600
        \<or> s = ''tokC'' \<and> index (Claims token) ''exp'' = VInt64 10100
        \<or> s = ''tokD'' \<and> index (Claims token) ''exp'' = VInt64 10801"
    by simp_all
  have same: "n = v"
    if "Claims token ''exp'' = Some (VInt64 n)" and "index (Claims token) ''exp'' = VInt64 v"
    for n v
    using that by (simp add: index_def)
  from strings consider
      (A) "s = ''tokA''" "index (Claims token) ''exp'' = VInt64 3600"
    | (B) "s = ''tokB''" "index (Claims token) ''exp'' = VInt64 6600"
    | (C) "s = ''tokC''" "index (Claims token) ''exp'' = VInt64 10100"
    | (D) "s = ''tokD''" "index (Claims token) ''exp'' = VInt64 10801"
    by blast
  then show ?thesis
  proof cases
    case A
    have "example_dec s = Some token_A" "Method token_A = Method token"
      "Claims token_A ''exp'' = Some (VFloat64 (of_int 3600))"
      by (simp_all add: A(1) example_dec_def token_A_def signing)
    with key same [OF _ A(2)] show ?thesis
      by blast
  next
    case B
    have "example_dec s = Some token_B" "Method token_B = Method token"
      "Claims token_B ''exp'' = Some (VFloat64 (of_int 6600))"
      by (simp_all add: B(1) example_dec_def token_B_def signing)
    with key same [OF _ B(2)] show ?thesis
      by blast
  next
    case C
    have "example_dec s = Some token_C" "Method token_C = Method token"
      "Claims token_C ''exp'' = Some (VFloat64 (of_int 10100))"
      by (simp_all add: C(1) example_dec_def token_C_def signing)
    with key same [OF _ C(2)] show ?thesis
      by blast
  next
    case D
    have "example_dec s = Some token_D" "Method token_D = Method token"
      "Claims token_D ''exp'' = Some (VFloat64 (of_int 10801))"
      by (simp_all add: D(1) example_dec_def token_D_def signing)
    with key same [OF _ D(2)] show ?thesis
      by blast
  qed
qed

lemma int64_three_halves:
  "int64 (3 / 2) = 1"
proof -
  have "\<lfloor>3 / 2 :: rat\<rfloor> = 1"
    by (rule floor_unique) simp_all
  then show ?thesis
    by (simp add: int64_def)
qed

text \<open>
  The handler stores \<open>int64(orig_iat)\<close>, not the presented value. A token that verifies,
  lies inside the window and carries \<^verbatim>\<open>orig_iat = 1.5\<close> is refreshed into a token whose
  \<^verbatim>\<open>orig_iat\<close> is 1.
\<close>

theorem RefreshHandler_fractional_orig_iat_counterexample:
  "parseToken example_pkg 3000000000000 (example_state example_mw ''half'')
     = Some (Inr (token_half\<lparr>Valid := True\<rparr>))
   \<and> Claims (token_half\<lparr>Valid := True\<rparr>) ''orig_iat'' = Some (VFloat64 (3 / 2))
   \<and> \<not> int64 (3 / 2) < Unix (Add 3000000000000 (- MaxRefresh example_mw))
   \<and> RefreshHandler example_pkg 3000000000000 3000000000000 3000000000000
         (example_state example_mw ''half'')
       = (Return, emit (WriteJson_resultToken ''tokB'') (example_state example_mw ''half''))
   \<and> SignedString example_pkg
         (refresh_token example_pkg example_mw 3000000000000 (token_half\<lparr>Valid := True\<rparr>)
            (int64 (3 / 2)))
         (Key example_mw) = Inr ''tokB''
   \<and> Claims (refresh_token example_pkg example_mw 3000000000000 (token_half\<lparr>Valid := True\<rparr>)
          (int64 (3 / 2))) ''orig_iat'' = Some (VInt64 1)
   \<and> (of_int 1 :: rat) \<noteq> 3 / 2"
proof -
  let ?\<sigma> = "example_state example_mw ''half''"
  let ?t = "3000000000000 :: Time"
  let ?H = "token_half\<lparr>Valid := True\<rparr>"
  let ?new = "refresh_token example_pkg example_mw ?t ?H (int64 (3 / 2))"
  have future: "exp_in_future (Claims token_half) ?t"
    by (simp add: token_half_def exp_in_future_def Unix_def int64_def)
  have parse: "parseToken example_pkg ?t ?\<sigma> = Some (Inr ?H)"
    by (rule example_parse)
      (simp_all add: example_mw_fields example_dec_def future, simp add: token_half_def)
  have iat: "Claims ?H ''orig_iat'' = Some (VFloat64 (3 / 2))"
    by (simp add: token_half_def)
  have inside: "\<not> int64 (3 / 2) < Unix (Add ?t (- MaxRefresh (mw ?\<sigma>)))"
    unfolding example_state_fields int64_three_halves
    by (simp add: example_mw_fields Unix_def Add_def)
  have expiry: "Claims ?new ''exp'' = Some (VInt64 6600)"
    by (simp add: refresh_token_claims example_mw_fields Unix_def Add_def Hour_def)
  have carried: "Claims ?new ''orig_iat'' = Some (VInt64 1)"
    by (simp add: refresh_token_claims int64_three_halves)
  have "Method ?new = Some (SigningMethod ''HS256'')"
    unfolding Method_refresh_token example_pkg_fields
    by (simp add: example_mw_fields example_methods_def)
  then have signed: "SignedString example_pkg ?new (Key example_mw) = Inr ''tokB''"
    unfolding example_pkg_fields by (simp add: example_sign_def index_def expiry example_mw_fields)
  have run: "RefreshHandler example_pkg ?t ?t ?t ?\<sigma>
      = (Return, emit (WriteJson_resultToken ''tokB'') ?\<sigma>)"
    using RefreshHandler_refreshed [OF parse iat inside, of ?t]
    unfolding example_state_fields
    apply (simp only: signed [unfolded example_mw_fields] example_mw_fields)
    apply (simp only: token_half_def)
    apply (simp add: index_def run_callback_def defaultResponseCallback_def)
    done
  have distinct: "(of_int 1 :: rat) \<noteq> 3 / 2"
    by simp
  show ?thesis
    by (simp only: parse iat inside [unfolded example_state_fields] run signed carried distinct
        simp_thms)
qed

text \<open>
  C5, amended. For a token that parses and verifies and whose numeric \<^verbatim>\<open>orig_iat\<close> \<open>f\<close>
  lies inside the refresh window, \<^verbatim>\<open>RefreshHandler\<close> builds and signs a new token that
  carries the value of the presented \<^verbatim>\<open>id\<close> (nil when there is none), has
  \<^verbatim>\<open>orig_iat = int64(f)\<close> whatever the clock says (the presented timestamp when that
  is an integer, its integer part otherwise), has
  \<^verbatim>\<open>exp = (now + Timeout).Unix()\<close>, and agrees with the presented token on every other
  entry. When signing fails it rejects; when \<^verbatim>\<open>id\<close> is a string it calls the storage
  hooks and hands the signed string to the response callback; otherwise it panics with
  nothing emitted. The token is
  signed with the configured method and key. With the parse of the specification and a
  package in which what was signed under a key decodes to the signed method and \<^verbatim>\<open>exp\<close>
  with a signature that verifies under that key, the gate's parse accepts the emitted
  string at every instant before its \<^verbatim>\<open>exp\<close>.
\<close>

theorem RefreshHandler_new_token:
  assumes "parseToken L now_parse \<sigma> = Some (Inr token)"
    and "Claims token ''orig_iat'' = Some (VFloat64 f)"
    and "\<not> int64 f < Unix (Add now_check (- MaxRefresh (mw \<sigma>)))"
    and "newToken = refresh_token L (mw \<sigma>) now_exp token (int64 f)"
  shows "RefreshHandler L now_parse now_check now_exp \<sigma> =
           (case SignedString L newToken (Key (mw \<sigma>)) of
              Inl err \<Rightarrow> (Return, unauthorized \<sigma>)
            | Inr tokenString \<Rightarrow>
                (case index (Claims token) ''id'' of
                   VString ident \<Rightarrow>
                     run_callback (RefreshCallback (mw \<sigma>)) call_RefreshCallback tokenString
                       (case RemoveToken (mw \<sigma>) of
                          NilHook \<Rightarrow>
                            (case StoreToken (mw \<sigma>) of
                               NilHook \<Rightarrow> \<sigma>
                             | Hook \<Rightarrow> emit (call_StoreToken (Timeout (mw \<sigma>)) ident
                                         tokenString) \<sigma>)
                        | Hook \<Rightarrow>
                            emit (call_RemoveToken ident (Raw token))
                              (case StoreToken (mw \<sigma>) of
                                 NilHook \<Rightarrow> \<sigma>
                               | Hook \<Rightarrow> emit (call_StoreToken (Timeout (mw \<sigma>)) ident
                                           tokenString) \<sigma>))
                 | _ \<Rightarrow> (Panic, \<sigma>)))
       \<and> Claims newToken ''id'' = Some (index (Claims token) ''id'')
       \<and> Claims newToken ''orig_iat'' = Some (VInt64 (int64 f))
       \<and> (\<forall>t0. f = of_int t0 \<and> - (2 ^ 63) \<le> t0 \<and> t0 < 2 ^ 63
              \<longrightarrow> Claims newToken ''orig_iat'' = Some (VInt64 t0))
       \<and> Claims newToken ''exp'' = Some (VInt64 (Unix (Add now_exp (Timeout (mw \<sigma>)))))
       \<and> (\<forall>k. k \<noteq> ''id'' \<and> k \<noteq> ''exp'' \<and> k \<noteq> ''orig_iat''
              \<longrightarrow> Claims newToken k = Claims token k)
       \<and> Method newToken = GetSigningMethod L (SigningAlgorithm (mw \<sigma>))
       \<and> (\<forall>dec ver.
             Parse L = jwt_Parse dec ver
             \<and> (\<forall>signed key s.
                   SignedString L signed key = Inr s
                   \<longrightarrow> (\<exists>d. dec s = Some d \<and> Method d = Method signed \<and> ver d key
                          \<and> (\<forall>n. Claims signed ''exp'' = Some (VInt64 n)
                                 \<longrightarrow> Claims d ''exp'' = Some (VFloat64 (of_int n)))))
           \<longrightarrow> (\<forall>tokenString now.
                  SignedString L newToken (Key (mw \<sigma>)) = Inr tokenString
                  \<and> - (2 ^ 63) \<le> Unix (Add now_exp (Timeout (mw \<sigma>)))
                  \<and> Unix (Add now_exp (Timeout (mw \<sigma>))) < 2 ^ 63
                  \<and> Unix now < Unix (Add now_exp (Timeout (mw \<sigma>)))
                \<longrightarrow> (\<exists>d. dec tokenString = Some d
                       \<and> Parse L tokenString (keyfunc L (mw \<sigma>)) now
                           = Inr (d\<lparr>Valid := True\<rparr>))))"
proof -
  let ?e = "Unix (Add now_exp (Timeout (mw \<sigma>)))"
  have run: "RefreshHandler L now_parse now_check now_exp \<sigma> =
           (case SignedString L newToken (Key (mw \<sigma>)) of
              Inl err \<Rightarrow> (Return, unauthorized \<sigma>)
            | Inr tokenString \<Rightarrow>
                (case index (Claims token) ''id'' of
                   VString ident \<Rightarrow>
                     run_callback (RefreshCallback (mw \<sigma>)) call_RefreshCallback tokenString
                       (case RemoveToken (mw \<sigma>) of
                          NilHook \<Rightarrow>
                            (case StoreToken (mw \<sigma>) of
                               NilHook \<Rightarrow> \<sigma>
                             | Hook \<Rightarrow> emit (call_StoreToken (Timeout (mw \<sigma>)) ident
                                         tokenString) \<sigma>)
                        | Hook \<Rightarrow>
                            emit (call_RemoveToken ident (Raw token))
                              (case StoreToken (mw \<sigma>) of
                                 NilHook \<Rightarrow> \<sigma>
                               | Hook \<Rightarrow> emit (call_StoreToken (Timeout (mw \<sigma>)) ident
                                           tokenString) \<sigma>))
                 | _ \<Rightarrow> (Panic, \<sigma>)))"
    unfolding assms(4) by (rule RefreshHandler_refreshed [OF assms(1,2,3)])
  have claims: "Claims newToken =
      (Claims token)(''id'' \<mapsto> index (Claims token) ''id'',
                     ''exp'' \<mapsto> VInt64 ?e,
                     ''orig_iat'' \<mapsto> VInt64 (int64 f))"
    unfolding assms(4) by (rule refresh_token_claims)
  have carried: "Claims newToken ''orig_iat'' = Some (VInt64 t0)"
    if "f = of_int t0 \<and> - (2 ^ 63) \<le> t0 \<and> t0 < 2 ^ 63" for t0
    using that by (simp add: claims int64_of_int)
  have signing: "Method newToken = GetSigningMethod L (SigningAlgorithm (mw \<sigma>))"
    unfolding assms(4) by (rule Method_refresh_token)
  have accepted: "\<exists>d. dec tokenString = Some d
      \<and> Parse L tokenString (keyfunc L (mw \<sigma>)) now = Inr (d\<lparr>Valid := True\<rparr>)"
    if spec: "Parse L = jwt_Parse dec ver"
      and round_trip: "\<forall>signed key s.
          SignedString L signed key = Inr s
          \<longrightarrow> (\<exists>d. dec s = Some d \<and> Method d = Method signed \<and> ver d key
                 \<and> (\<forall>n. Claims signed ''exp'' = Some (VInt64 n)
                        \<longrightarrow> Claims d ''exp'' = Some (VFloat64 (of_int n))))"
      and h: "SignedString L newToken (Key (mw \<sigma>)) = Inr tokenString
          \<and> - (2 ^ 63) \<le> ?e \<and> ?e < 2 ^ 63 \<and> Unix now < ?e"
    for dec ver tokenString now
  proof -
    from round_trip h obtain d where d: "dec tokenString = Some d"
      "Method d = Method newToken" "ver d (Key (mw \<sigma>))"
      and expiry: "\<forall>n. Claims newToken ''exp'' = Some (VInt64 n)
          \<longrightarrow> Claims d ''exp'' = Some (VFloat64 (of_int n))"
      by blast
    from expiry have "Claims d ''exp'' = Some (VFloat64 (of_int ?e))"
      by (simp add: claims)
    moreover from h have "int64 (of_int ?e) = ?e"
      by (intro int64_of_int) simp_all
    ultimately have "exp_in_future (Claims d) now"
      using h by (simp add: exp_in_future_def)
    moreover from d(2) signing have "keyfunc L (mw \<sigma>) d = Inr (Key (mw \<sigma>))"
      by (simp add: keyfunc_def)
    ultimately have "Parse L tokenString (keyfunc L (mw \<sigma>)) now = Inr (d\<lparr>Valid := True\<rparr>)"
      using d by (simp add: spec jwt_Parse_def)
    with d(1) show ?thesis
      by blast
  qed
  have ident: "Claims newToken ''id'' = Some (index (Claims token) ''id'')"
    and origin: "Claims newToken ''orig_iat'' = Some (VInt64 (int64 f))"
    and expiry: "Claims newToken ''exp'' = Some (VInt64 ?e)"
    and others: "\<forall>k. k \<noteq> ''id'' \<and> k \<noteq> ''exp'' \<and> k \<noteq> ''orig_iat''
        \<longrightarrow> Claims newToken k = Claims token k"
    by (simp_all add: claims)
  from accepted have verifies: "\<forall>dec ver.
      Parse L = jwt_Parse dec ver
      \<and> (\<forall>signed key s.
            SignedString L signed key = Inr s
            \<longrightarrow> (\<exists>d. dec s = Some d \<and> Method d = Method signed \<and> ver d key
                   \<and> (\<forall>n. Claims signed ''exp'' = Some (VInt64 n)
                          \<longrightarrow> Claims d ''exp'' = Some (VFloat64 (of_int n)))))
      \<longrightarrow> (\<forall>tokenString now.
             SignedString L newToken (Key (mw \<sigma>)) = Inr tokenString
             \<and> - (2 ^ 63) \<le> ?e \<and> ?e < 2 ^ 63 \<and> Unix now < ?e
           \<longrightarrow> (\<exists>d. dec tokenString = Some d
                  \<and> Parse L tokenString (keyfunc L (mw \<sigma>)) now = Inr (d\<lparr>Valid := True\<rparr>)))"
    by blast
  from run ident origin carried expiry others signing verifies show ?thesis
    by blast
qed

theorem RefreshHandler_new_token_witness:
  "RefreshHandler example_pkg 3000000000000 3000000000000 3000000000000
       (example_state example_mw ''tokA'')
     = (Return, emit (WriteJson_resultToken ''tokB'') (example_state example_mw ''tokA''))
   \<and> Claims (refresh_token example_pkg example_mw 3000000000000 (token_A\<lparr>Valid := True\<rparr>)
        (int64 0)) ''id'' = Some (VString ''alice'')
   \<and> Claims (refresh_token example_pkg example_mw 3000000000000 (token_A\<lparr>Valid := True\<rparr>)
        (int64 0)) ''orig_iat'' = Some (VInt64 0)
   \<and> Claims (refresh_token example_pkg example_mw 3000000000000 (token_A\<lparr>Valid := True\<rparr>)
        (int64 0)) ''exp'' = Some (VInt64 6600)
   \<and> SignedString example_pkg
        (refresh_token example_pkg example_mw 3000000000000 (token_A\<lparr>Valid := True\<rparr>) (int64 0))
        (Key example_mw) = Inr ''tokB''
   \<and> Parse example_pkg ''tokB'' (keyfunc example_pkg example_mw) 6000000000000
       = Inr (token_B\<lparr>Valid := True\<rparr>)"
proof -
  let ?\<sigma> = "example_state example_mw ''tokA''"
  let ?t = "3000000000000 :: Time"
  let ?A = "token_A\<lparr>Valid := True\<rparr>"
  let ?new = "refresh_token example_pkg example_mw ?t ?A (int64 0)"
  have iat: "Claims ?A ''orig_iat'' = Some (VFloat64 0)"
    and ident: "index (Claims ?A) ''id'' = VString ''alice''"
    by (simp_all add: token_A_def index_def)
  have inside: "\<not> int64 0 < Unix (Add ?t (- MaxRefresh (mw ?\<sigma>)))"
    unfolding example_state_fields by (simp add: example_mw_fields int64_def Unix_def Add_def)
  have new: "?new = refresh_token example_pkg (mw ?\<sigma>) ?t ?A (int64 0)"
    unfolding example_state_fields by simp
  note facts = RefreshHandler_new_token [OF example_parse_A iat inside new,
      unfolded example_state_fields]
  have expiry: "Unix (Add ?t (Timeout example_mw)) = 6600"
    by (simp add: example_mw_fields Unix_def Add_def Hour_def)
  have first: "(0 :: rat) = of_int 0 \<and> - (2 ^ 63) \<le> (0 :: int) \<and> (0 :: int) < 2 ^ 63"
    by simp
  from facts have carried: "Claims ?new ''id'' = Some (index (Claims ?A) ''id'')"
    and origin: "\<forall>t0. (0 :: rat) = of_int t0 \<and> - (2 ^ 63) \<le> t0 \<and> t0 < 2 ^ 63
        \<longrightarrow> Claims ?new ''orig_iat'' = Some (VInt64 t0)"
    and expires: "Claims ?new ''exp'' = Some (VInt64 (Unix (Add ?t (Timeout example_mw))))"
    and signing: "Method ?new = GetSigningMethod example_pkg (SigningAlgorithm example_mw)"
    by blast+
  from origin first have origin0: "Claims ?new ''orig_iat'' = Some (VInt64 0)"
    by blast
  from carried have carried0: "Claims ?new ''id'' = Some (VString ''alice'')"
    unfolding ident .
  from expires have expires0: "Claims ?new ''exp'' = Some (VInt64 6600)"
    by (simp add: expiry)
  from signing have "Method ?new = Some (SigningMethod ''HS256'')"
    by (simp add: example_pkg_fields example_mw_fields example_methods_def)
  then have signed: "SignedString example_pkg ?new (Key example_mw) = Inr ''tokB''"
    unfolding example_pkg_fields
    by (simp add: example_sign_def index_def expires0 example_mw_fields)
  from facts have "RefreshHandler example_pkg ?t ?t ?t ?\<sigma> =
      (case SignedString example_pkg ?new (Key example_mw) of
         Inl err \<Rightarrow> (Return, unauthorized ?\<sigma>)
       | Inr tokenString \<Rightarrow>
           (case index (Claims ?A) ''id'' of
              VString ident \<Rightarrow>
                run_callback (RefreshCallback example_mw) call_RefreshCallback tokenString
                  (case RemoveToken example_mw of
                     NilHook \<Rightarrow>
                       (case StoreToken example_mw of
                          NilHook \<Rightarrow> ?\<sigma>
                        | Hook \<Rightarrow> emit (call_StoreToken (Timeout example_mw) ident
                                    tokenString) ?\<sigma>)
                   | Hook \<Rightarrow>
                       emit (call_RemoveToken ident (Raw ?A))
                         (case StoreToken example_mw of
                            NilHook \<Rightarrow> ?\<sigma>
                          | Hook \<Rightarrow> emit (call_StoreToken (Timeout example_mw) ident
                                      tokenString) ?\<sigma>))
            | _ \<Rightarrow> (Panic, ?\<sigma>)))"
    by blast
  then have run: "RefreshHandler example_pkg ?t ?t ?t ?\<sigma>
      = (Return, emit (WriteJson_resultToken ''tokB'') ?\<sigma>)"
    apply (simp only: signed ident sum.case interface.case)
    apply (simp add: example_mw_fields run_callback_def defaultResponseCallback_def)
    done
  have round_trip: "\<forall>signed key s.
      SignedString example_pkg signed key = Inr s
      \<longrightarrow> (\<exists>d. example_dec s = Some d \<and> Method d = Method signed \<and> example_ver d key
             \<and> (\<forall>n. Claims signed ''exp'' = Some (VInt64 n)
                    \<longrightarrow> Claims d ''exp'' = Some (VFloat64 (of_int n))))"
    using example_sign_round_trip by blast
  have before: "SignedString example_pkg ?new (Key example_mw) = Inr ''tokB''
      \<and> - (2 ^ 63) \<le> Unix (Add ?t (Timeout example_mw))
      \<and> Unix (Add ?t (Timeout example_mw)) < 2 ^ 63
      \<and> Unix 6000000000000 < Unix (Add ?t (Timeout example_mw))"
    unfolding expiry using signed by (simp add: Unix_def)
  from facts have "\<forall>dec ver.
      Parse example_pkg = jwt_Parse dec ver
      \<and> (\<forall>signed key s.
            SignedString example_pkg signed key = Inr s
            \<longrightarrow> (\<exists>d. dec s = Some d \<and> Method d = Method signed \<and> ver d key
                   \<and> (\<forall>n. Claims signed ''exp'' = Some (VInt64 n)
                          \<longrightarrow> Claims d ''exp'' = Some (VFloat64 (of_int n)))))
      \<longrightarrow> (\<forall>tokenString now.
             SignedString example_pkg ?new (Key example_mw) = Inr tokenString
             \<and> - (2 ^ 63) \<le> Unix (Add ?t (Timeout example_mw))
             \<and> Unix (Add ?t (Timeout example_mw)) < 2 ^ 63
             \<and> Unix now < Unix (Add ?t (Timeout example_mw))
           \<longrightarrow> (\<exists>d. dec tokenString = Some d
                  \<and> Parse example_pkg tokenString (keyfunc example_pkg example_mw) now
                      = Inr (d\<lparr>Valid := True\<rparr>)))"
    by blast
  with example_pkg_fields(2) round_trip before
  obtain d where "example_dec ''tokB'' = Some d"
    and "Parse example_pkg ''tokB'' (keyfunc example_pkg example_mw) 6000000000000
      = Inr (d\<lparr>Valid := True\<rparr>)"
    by blast
  then have verifies: "Parse example_pkg ''tokB'' (keyfunc example_pkg example_mw) 6000000000000
      = Inr (token_B\<lparr>Valid := True\<rparr>)"
    by (simp add: example_dec_def)
  show ?thesis
    by (simp only: run carried0 origin0 expires0 signed verifies simp_thms)
qed

section \<open>Refresh and the \<^verbatim>\<open>orig_iat\<close> claim\<close>

text \<open>
  C6, as stated, fails: a token that parses and verifies but has no \<^verbatim>\<open>orig_iat\<close>
  (as issued when refresh is disabled) makes \<^verbatim>\<open>RefreshHandler\<close> panic; the request
  is not rejected.
\<close>

theorem RefreshHandler_missing_orig_iat_counterexample:
  "parseToken example_pkg 3000000000000 (example_state example_mw ''plain'')
     = Some (Inr (token_plain\<lparr>Valid := True\<rparr>))
   \<and> Claims (token_plain\<lparr>Valid := True\<rparr>) ''orig_iat'' = None
   \<and> fst (RefreshHandler example_pkg 3000000000000 3000000000000 3000000000000
            (example_state example_mw ''plain'')) = Panic
   \<and> RefreshHandler example_pkg 3000000000000 3000000000000 3000000000000
        (example_state example_mw ''plain'')
       \<noteq> (Return, unauthorized (example_state example_mw ''plain''))"
  by (simp add: example_parse_plain RefreshHandler_def index_def) (simp add: token_plain_def)

text \<open>
  C6, amended. For a refresh request whose token parses and verifies,
  \<^verbatim>\<open>RefreshHandler\<close> reads \<^verbatim>\<open>orig_iat\<close> by an unchecked float64 assertion before
  anything else: with a numeric \<^verbatim>\<open>orig_iat\<close> outside the window the request is
  rejected, and no run that gets past this point has a token without a numeric
  \<^verbatim>\<open>orig_iat\<close>; with \<^verbatim>\<open>orig_iat\<close> missing or not numeric the handler does not
  reject but panics, having written nothing, emitted no token and called no
  collaborator.
\<close>

theorem RefreshHandler_orig_iat_assertion:
  assumes "parseToken L now_parse \<sigma> = Some (Inr token)"
  shows "((\<forall>f. Claims token ''orig_iat'' \<noteq> Some (VFloat64 f))
            \<longrightarrow> RefreshHandler L now_parse now_check now_exp \<sigma> = (Panic, \<sigma>))
       \<and> (RefreshHandler L now_parse now_check now_exp \<sigma> \<noteq> (Panic, \<sigma>)
            \<longrightarrow> (\<exists>f. Claims token ''orig_iat'' = Some (VFloat64 f)))
       \<and> (\<forall>f. Claims token ''orig_iat'' = Some (VFloat64 f)
              \<and> int64 f < Unix (Add now_check (- MaxRefresh (mw \<sigma>)))
            \<longrightarrow> RefreshHandler L now_parse now_check now_exp \<sigma> = (Return, unauthorized \<sigma>))"
proof -
  have panic: "RefreshHandler L now_parse now_check now_exp \<sigma> = (Panic, \<sigma>)"
    if "\<forall>f. Claims token ''orig_iat'' \<noteq> Some (VFloat64 f)"
  proof -
    from that have "\<And>f. index (Claims token) ''orig_iat'' \<noteq> VFloat64 f"
      by (auto simp: index_def split: option.splits)
    with assms show ?thesis
      by (cases "index (Claims token) ''orig_iat''") (auto simp: RefreshHandler_def)
  qed
  moreover have "RefreshHandler L now_parse now_check now_exp \<sigma> = (Return, unauthorized \<sigma>)"
    if "Claims token ''orig_iat'' = Some (VFloat64 f)
        \<and> int64 f < Unix (Add now_check (- MaxRefresh (mw \<sigma>)))" for f
    using assms that by (simp add: RefreshHandler_def index_def)
  ultimately show ?thesis
    by blast
qed

theorem RefreshHandler_orig_iat_assertion_witness:
  "RefreshHandler example_pkg 3000000000000 3000000000000 3000000000000
       (example_state example_mw ''plain'')
     = (Panic, example_state example_mw ''plain'')
   \<and> RefreshHandler example_pkg 7300000000000 7300000000000 7300000000000
       (example_state example_mw ''tokC'')
     = (Return, unauthorized (example_state example_mw ''tokC''))"
proof -
  have "\<forall>f. Claims (token_plain\<lparr>Valid := True\<rparr>) ''orig_iat'' \<noteq> Some (VFloat64 f)"
    by (simp add: token_plain_def)
  with RefreshHandler_orig_iat_assertion [OF example_parse_plain]
  have panic: "RefreshHandler example_pkg 3000000000000 3000000000000 3000000000000
      (example_state example_mw ''plain'') = (Panic, example_state example_mw ''plain'')"
    by blast
  have "Claims (token_C\<lparr>Valid := True\<rparr>) ''orig_iat'' = Some (VFloat64 0)
      \<and> int64 0 < Unix (Add 7300000000000 (- MaxRefresh (mw (example_state example_mw ''tokC''))))"
    by (simp add: token_C_def example_state_fields example_mw_fields int64_def Unix_def Add_def)
  with RefreshHandler_orig_iat_assertion [OF example_parse_C, of 7300000000000 7300000000000]
  have "RefreshHandler example_pkg 7300000000000 7300000000000 7300000000000
      (example_state example_mw ''tokC'') = (Return, unauthorized (example_state example_mw ''tokC''))"
    by blast
  with panic show ?thesis
    by simp
qed


section \<open>The unauthorized response\<close>

lemma middlewareImpl_response:
  "\<exists>es. trace (snd (middlewareImpl L now \<sigma>)) = trace \<sigma> @ es
     \<and> (filter error_response es = []
        \<or> filter error_response es
            = [Header_Set ''WWW-Authenticate'' (''JWT realm='' @ Realm (mw \<sigma>)),
               rest_Error ''Not Authorized'' 401])"
  by (auto simp: middlewareImpl_def Let_def trace_unauthorized trace_emit mw_emit
      split: option.splits sum.splits interface.splits)

lemma LoginHandler_response:
  "\<exists>es. trace (snd (LoginHandler L now_exp now_iat \<sigma>)) = trace \<sigma> @ es
     \<and> (filter error_response es = []
        \<or> filter error_response es
            = [Header_Set ''WWW-Authenticate'' (''JWT realm='' @ Realm (mw \<sigma>)),
               rest_Error ''Not Authorized'' 401])"
  by (cases "StoreToken (mw \<sigma>)"; cases "LoginCallback (mw \<sigma>)")
    (auto simp: LoginHandler_def Let_def run_callback_def defaultResponseCallback_def
      trace_unauthorized trace_emit mw_emit
      split: option.splits sum.splits)

lemma RefreshHandler_response:
  "\<exists>es. trace (snd (RefreshHandler L now_parse now_check now_exp \<sigma>)) = trace \<sigma> @ es
     \<and> (filter error_response es = []
        \<or> filter error_response es
            = [Header_Set ''WWW-Authenticate'' (''JWT realm='' @ Realm (mw \<sigma>)),
               rest_Error ''Not Authorized'' 401])"
  by (cases "StoreToken (mw \<sigma>)"; cases "RemoveToken (mw \<sigma>)";
      cases "RefreshCallback (mw \<sigma>)")
    (auto simp: RefreshHandler_def Let_def run_callback_def defaultResponseCallback_def
      trace_unauthorized trace_emit mw_emit
      split: option.splits sum.splits interface.splits)

text \<open>
  C7, as stated, fails on the form of the challenge: the realm is appended as it is,
  without quotation marks. A request with a malformed token is rejected at the example
  gate with the header value \<^verbatim>\<open>JWT realm=example\<close>.
\<close>

theorem unauthorized_challenge_counterexample:
  "middlewareImpl example_pkg 0 (example_state example_mw ''garbage'')
     = (Return, unauthorized (example_state example_mw ''garbage''))
   \<and> trace (unauthorized (example_state example_mw ''garbage''))
       = [Header_Set ''WWW-Authenticate'' ''JWT realm=example'',
          rest_Error ''Not Authorized'' 401]
   \<and> trace (unauthorized (example_state example_mw ''garbage''))
       \<noteq> [Header_Set ''WWW-Authenticate''
            (''JWT realm='' @ [CHR 0x22] @ Realm example_mw @ [CHR 0x22]),
          rest_Error ''Not Authorized'' 401]"
proof -
  have "parseToken example_pkg 0 (example_state example_mw ''garbage'')
      = Some (Inl (errors_New ''token is malformed''))"
    by (rule example_parse_garbage)
  then have "middlewareImpl example_pkg 0 (example_state example_mw ''garbage'')
      = (Return, unauthorized (example_state example_mw ''garbage''))"
    by (simp add: middlewareImpl_def)
  moreover have "trace (unauthorized (example_state example_mw ''garbage''))
      = [Header_Set ''WWW-Authenticate'' ''JWT realm=example'',
         rest_Error ''Not Authorized'' 401]"
    by (simp add: trace_unauthorized example_state_def example_mw_def)
  ultimately show ?thesis
    by (simp add: example_mw_def)
qed

text \<open>
  C7, amended. Every rejection produces one and the same response: the header
  \<^verbatim>\<open>WWW-Authenticate\<close> set to \<^verbatim>\<open>JWT realm=\<close> followed by the configured realm as it
  is (no quotation marks), then \<^verbatim>\<open>rest.Error\<close> with the message \<^verbatim>\<open>Not Authorized\<close> and
  status 401. Each failing step (extraction, parsing and verification, authorization,
  login decoding, credentials, signing, refresh window) ends in exactly this response,
  and no run of the gate, of login or of refresh writes any other header or error.
\<close>

theorem rejection_is_uniform:
  "trace (unauthorized \<sigma>)
     = trace \<sigma> @ [Header_Set ''WWW-Authenticate'' (''JWT realm='' @ Realm (mw \<sigma>)),
                   rest_Error ''Not Authorized'' 401]
   \<and> (\<forall>err. call_TokenExtractor \<sigma> = Some (Inl err) \<longrightarrow> parseToken L now \<sigma> = Some (Inl err))
   \<and> (\<forall>err. parseToken L now \<sigma> = Some (Inl err)
         \<longrightarrow> middlewareImpl L now \<sigma> = (Return, unauthorized \<sigma>)
           \<and> RefreshHandler L now now_check now_exp \<sigma> = (Return, unauthorized \<sigma>))
   \<and> (\<forall>token ident authorize \<sigma>1.
         parseToken L now \<sigma> = Some (Inr token) \<and> Claims token ''id'' = Some (VString ident)
         \<and> Authorizator (mw \<sigma>) = Some authorize
         \<and> \<sigma>1 = \<sigma>\<lparr>request := (request \<sigma>)
                     \<lparr>Env := bind_env (mw \<sigma>) token ident (Env (request \<sigma>))\<rparr>\<rparr>
         \<and> \<not> authorize ident (request \<sigma>1)
         \<longrightarrow> middlewareImpl L now \<sigma>
               = (Return, unauthorized (emit (call_Authorizator ident) \<sigma>1)))
   \<and> (\<forall>err. DecodeJsonPayload (request \<sigma>) = Inl err
         \<longrightarrow> LoginHandler L now_exp now_iat \<sigma> = (Return, unauthorized \<sigma>))
   \<and> (\<forall>loginVals authenticate.
         DecodeJsonPayload (request \<sigma>) = Inr loginVals
         \<and> Authenticator (mw \<sigma>) = Some authenticate
         \<and> (\<not> authenticate (Username loginVals) (Password loginVals)
            \<or> (\<exists>err. SignedString L
                   (login_token L (mw \<sigma>) now_exp now_iat (Username loginVals)) (Key (mw \<sigma>))
                  = Inl err))
         \<longrightarrow> LoginHandler L now_exp now_iat \<sigma>
               = (Return, unauthorized
                   (emit (call_Authenticator (Username loginVals) (Password loginVals)) \<sigma>)))
   \<and> (\<forall>token f.
         parseToken L now \<sigma> = Some (Inr token) \<and> Claims token ''orig_iat'' = Some (VFloat64 f)
         \<and> (int64 f < Unix (Add now_check (- MaxRefresh (mw \<sigma>)))
            \<or> (\<exists>err. SignedString L (refresh_token L (mw \<sigma>) now_exp token (int64 f))
                   (Key (mw \<sigma>)) = Inl err))
         \<longrightarrow> RefreshHandler L now now_check now_exp \<sigma> = (Return, unauthorized \<sigma>))
   \<and> (\<exists>es. trace (snd (middlewareImpl L now \<sigma>)) = trace \<sigma> @ es
         \<and> (filter error_response es = []
            \<or> filter error_response es
                = [Header_Set ''WWW-Authenticate'' (''JWT realm='' @ Realm (mw \<sigma>)),
                   rest_Error ''Not Authorized'' 401]))
   \<and> (\<exists>es. trace (snd (LoginHandler L now_exp now_iat \<sigma>)) = trace \<sigma> @ es
         \<and> (filter error_response es = []
            \<or> filter error_response es
                = [Header_Set ''WWW-Authenticate'' (''JWT realm='' @ Realm (mw \<sigma>)),
                   rest_Error ''Not Authorized'' 401]))
   \<and> (\<exists>es. trace (snd (RefreshHandler L now now_check now_exp \<sigma>)) = trace \<sigma> @ es
         \<and> (filter error_response es = []
            \<or> filter error_response es
                = [Header_Set ''WWW-Authenticate'' (''JWT realm='' @ Realm (mw \<sigma>)),
                   rest_Error ''Not Authorized'' 401]))"
proof (intro conjI allI impI)
  fix err
  assume "call_TokenExtractor \<sigma> = Some (Inl err)"
  then show "parseToken L now \<sigma> = Some (Inl err)"
    by (simp add: parseToken_def)
next
  fix err
  assume failed: "parseToken L now \<sigma> = Some (Inl err)"
  then show "middlewareImpl L now \<sigma> = (Return, unauthorized \<sigma>)"
    by (simp add: middlewareImpl_def)
  from failed show "RefreshHandler L now now_check now_exp \<sigma> = (Return, unauthorized \<sigma>)"
    by (simp add: RefreshHandler_def)
next
  fix token ident authorize \<sigma>1
  assume "parseToken L now \<sigma> = Some (Inr token) \<and> Claims token ''id'' = Some (VString ident)
      \<and> Authorizator (mw \<sigma>) = Some authorize
      \<and> \<sigma>1 = \<sigma>\<lparr>request := (request \<sigma>)
                  \<lparr>Env := bind_env (mw \<sigma>) token ident (Env (request \<sigma>))\<rparr>\<rparr>
      \<and> \<not> authorize ident (request \<sigma>1)"
  then show "middlewareImpl L now \<sigma> = (Return, unauthorized (emit (call_Authorizator ident) \<sigma>1))"
    by (clarsimp simp: middlewareImpl_def index_def Let_def)
next
  fix err
  assume "DecodeJsonPayload (request \<sigma>) = Inl err"
  then show "LoginHandler L now_exp now_iat \<sigma> = (Return, unauthorized \<sigma>)"
    by (simp add: LoginHandler_def)
next
  fix loginVals authenticate
  assume "DecodeJsonPayload (request \<sigma>) = Inr loginVals
      \<and> Authenticator (mw \<sigma>) = Some authenticate
      \<and> (\<not> authenticate (Username loginVals) (Password loginVals)
         \<or> (\<exists>err. SignedString L
                (login_token L (mw \<sigma>) now_exp now_iat (Username loginVals)) (Key (mw \<sigma>))
               = Inl err))"
  then show "LoginHandler L now_exp now_iat \<sigma>
      = (Return, unauthorized
          (emit (call_Authenticator (Username loginVals) (Password loginVals)) \<sigma>))"
    by (auto simp: LoginHandler_def Let_def mw_emit)
next
  fix token f
  assume "parseToken L now \<sigma> = Some (Inr token) \<and> Claims token ''orig_iat'' = Some (VFloat64 f)
      \<and> (int64 f < Unix (Add now_check (- MaxRefresh (mw \<sigma>)))
         \<or> (\<exists>err. SignedString L (refresh_token L (mw \<sigma>) now_exp token (int64 f))
                (Key (mw \<sigma>)) = Inl err))"
  then show "RefreshHandler L now now_check now_exp \<sigma> = (Return, unauthorized \<sigma>)"
    by (auto simp: RefreshHandler_def index_def Let_def)
qed (fact trace_unauthorized middlewareImpl_response LoginHandler_response
    RefreshHandler_response)+

theorem rejection_is_uniform_witness:
  "trace (unauthorized (example_state example_mw ''garbage''))
     = [Header_Set ''WWW-Authenticate'' ''JWT realm=example'', rest_Error ''Not Authorized'' 401]
   \<and> middlewareImpl example_pkg 0 (example_state example_mw ''garbage'')
       = (Return, unauthorized (example_state example_mw ''garbage''))
   \<and> RefreshHandler example_pkg 7300000000000 7300000000000 7300000000000
         (example_state example_mw ''tokC'')
       = (Return, unauthorized (example_state example_mw ''tokC''))
   \<and> LoginHandler example_pkg 0 0
         ((example_state example_mw [])
            \<lparr>request := (example_request [])
               \<lparr>DecodeJsonPayload := Inl (errors_New ''EOF'')\<rparr>\<rparr>)
       = (Return, unauthorized ((example_state example_mw [])
            \<lparr>request := (example_request [])
               \<lparr>DecodeJsonPayload := Inl (errors_New ''EOF'')\<rparr>\<rparr>))
   \<and> LoginHandler example_pkg 0 0
         ((example_state example_mw [])
            \<lparr>request := (example_request [])
               \<lparr>DecodeJsonPayload := Inr \<lparr>Username = ''alice'', Password = ''guess''\<rparr>\<rparr>\<rparr>)
       = (Return, unauthorized (emit (call_Authenticator ''alice'' ''guess'')
            ((example_state example_mw [])
               \<lparr>request := (example_request [])
                  \<lparr>DecodeJsonPayload
                      := Inr \<lparr>Username = ''alice'', Password = ''guess''\<rparr>\<rparr>\<rparr>)))"
proof -
  let ?bad = "(example_state example_mw [])
      \<lparr>request := (example_request [])\<lparr>DecodeJsonPayload := Inl (errors_New ''EOF'')\<rparr>\<rparr>"
  let ?guess = "\<lparr>Username = ''alice'', Password = ''guess''\<rparr>"
  let ?wrong = "(example_state example_mw [])
      \<lparr>request := (example_request [])\<lparr>DecodeJsonPayload := Inr ?guess\<rparr>\<rparr>"
  let ?check = "\<lambda>userId password. userId = ''alice'' \<and> password = ''secret''"
  from rejection_is_uniform [of "example_state example_mw ''garbage''"]
  have response: "trace (unauthorized (example_state example_mw ''garbage''))
      = [Header_Set ''WWW-Authenticate'' ''JWT realm=example'',
         rest_Error ''Not Authorized'' 401]"
    by (simp add: example_state_fields example_mw_fields)
  from rejection_is_uniform [where \<sigma> = "example_state example_mw ''garbage''"
      and L = example_pkg and now = 0] example_parse_garbage [of 0]
  have gate: "middlewareImpl example_pkg 0 (example_state example_mw ''garbage'')
      = (Return, unauthorized (example_state example_mw ''garbage''))"
    by blast
  have "Claims (token_C\<lparr>Valid := True\<rparr>) ''orig_iat'' = Some (VFloat64 0)"
    and "int64 0 < Unix (Add 7300000000000 (- MaxRefresh (mw (example_state example_mw ''tokC''))))"
    by (simp_all add: token_C_def example_state_fields example_mw_fields int64_def Unix_def
        Add_def)
  with rejection_is_uniform [where \<sigma> = "example_state example_mw ''tokC''"
      and L = example_pkg and now = 7300000000000 and now_check = 7300000000000
      and now_exp = 7300000000000] example_parse_C
  have refresh: "RefreshHandler example_pkg 7300000000000 7300000000000 7300000000000
      (example_state example_mw ''tokC'') = (Return, unauthorized (example_state example_mw ''tokC''))"
    by blast
  have "DecodeJsonPayload (request ?bad) = Inl (errors_New ''EOF'')"
    by simp
  with rejection_is_uniform [where \<sigma> = ?bad and L = example_pkg and now_exp = 0 and now_iat = 0]
  have undecodable: "LoginHandler example_pkg 0 0 ?bad = (Return, unauthorized ?bad)"
    by blast
  have "DecodeJsonPayload (request ?wrong) = Inr ?guess"
    and "Authenticator (mw ?wrong) = Some ?check"
    and "\<not> ?check (Username ?guess) (Password ?guess)"
    by (simp_all add: example_state_fields example_state_def example_mw_fields)
  with rejection_is_uniform [where \<sigma> = ?wrong and L = example_pkg and now_exp = 0
      and now_iat = 0]
  have "LoginHandler example_pkg 0 0 ?wrong
      = (Return, unauthorized
          (emit (call_Authenticator (Username ?guess) (Password ?guess)) ?wrong))"
    by blast
  then have credentials: "LoginHandler example_pkg 0 0 ?wrong
      = (Return, unauthorized (emit (call_Authenticator ''alice'' ''guess'') ?wrong))"
    by simp
  from response gate refresh undecodable credentials show ?thesis
    by (intro conjI)
qed


section \<open>The configuration\<close>

lemma mw_middlewareImpl: "mw (snd (middlewareImpl L now \<sigma>)) = mw \<sigma>"
  by (simp add: middlewareImpl_def Let_def mw_emit mw_unauthorized
      split: option.splits sum.splits interface.splits)

lemma mw_LoginHandler: "mw (snd (LoginHandler L now_exp now_iat \<sigma>)) = mw \<sigma>"
  by (simp add: LoginHandler_def Let_def mw_emit mw_unauthorized mw_run_callback
      split: option.splits sum.splits hook.splits)

lemma mw_RefreshHandler: "mw (snd (RefreshHandler L now_parse now_check now_exp \<sigma>)) = mw \<sigma>"
  by (simp add: RefreshHandler_def Let_def mw_emit mw_unauthorized mw_run_callback
      split: option.splits sum.splits interface.splits hook.splits)

lemma Hour_not_0: "Hour \<noteq> 0"
  by (simp add: Hour_def)

text \<open>
  \<^verbatim>\<open>MiddlewareFunc\<close> as one update: each conditional assignment sets its field to the
  default or to itself.
\<close>

lemma MiddlewareFunc_eq:
  "MiddlewareFunc m =
     (if Realm m = [] then Inl (log_Fatal ''Realm is required'')
      else if Key m = None then Inl (log_Fatal ''Key required'')
      else if Authenticator m = None then Inl (log_Fatal ''Authenticator is required'')
      else Inr (m\<lparr>TokenName := (if TokenName m = [] then ''Authorization'' else TokenName m),
                   TokenEnvName := (if TokenEnvName m = [] then ''AUTH_TOKEN'' else TokenEnvName m),
                   SigningAlgorithm :=
                     (if SigningAlgorithm m = [] then ''HS256'' else SigningAlgorithm m),
                   Timeout := (if Timeout m = 0 then Hour else Timeout m),
                   TokenExtractor :=
                     (if TokenExtractor m = NilExtractor then DefaultTokenExtractor
                      else TokenExtractor m),
                   Authorizator :=
                     (if Authorizator m = None then Some (\<lambda>userId request. True)
                      else Authorizator m),
                   LoginCallback :=
                     (if LoginCallback m = NilCallback then DefaultResponseCallback
                      else LoginCallback m),
                   RefreshCallback :=
                     (if RefreshCallback m = NilCallback then DefaultResponseCallback
                      else RefreshCallback m)\<rparr>))"
proof -
  have 1: "(if c then r\<lparr>TokenName := v\<rparr> else r) = r\<lparr>TokenName := (if c then v else TokenName r)\<rparr>"
    for c v and r :: JWTMiddleware by simp
  have 2: "(if c then r\<lparr>TokenEnvName := v\<rparr> else r)
      = r\<lparr>TokenEnvName := (if c then v else TokenEnvName r)\<rparr>"
    for c v and r :: JWTMiddleware by simp
  have 3: "(if c then r\<lparr>SigningAlgorithm := v\<rparr> else r)
      = r\<lparr>SigningAlgorithm := (if c then v else SigningAlgorithm r)\<rparr>"
    for c v and r :: JWTMiddleware by simp
  have 4: "(if c then r\<lparr>Timeout := d\<rparr> else r) = r\<lparr>Timeout := (if c then d else Timeout r)\<rparr>"
    for c d and r :: JWTMiddleware by simp
  have 5: "(if c then r\<lparr>TokenExtractor := x\<rparr> else r)
      = r\<lparr>TokenExtractor := (if c then x else TokenExtractor r)\<rparr>"
    for c x and r :: JWTMiddleware by simp
  have 6: "(if c then r\<lparr>Authorizator := a\<rparr> else r)
      = r\<lparr>Authorizator := (if c then a else Authorizator r)\<rparr>"
    for c a and r :: JWTMiddleware by simp
  have 7: "(if c then r\<lparr>LoginCallback := b\<rparr> else r)
      = r\<lparr>LoginCallback := (if c then b else LoginCallback r)\<rparr>"
    for c b and r :: JWTMiddleware by simp
  have 8: "(if c then r\<lparr>RefreshCallback := b\<rparr> else r)
      = r\<lparr>RefreshCallback := (if c then b else RefreshCallback r)\<rparr>"
    for c b and r :: JWTMiddleware by simp
  show ?thesis
    by (simp add: MiddlewareFunc_def Let_def 1 2 3 4 5 6 7 8 cong: if_cong split del: if_split)
qed

lemma MiddlewareFunc_fields:
  assumes "MiddlewareFunc m = Inr m'"
  shows "Realm m' = Realm m \<and> Realm m \<noteq> []"
    and "Key m' = Key m \<and> Key m \<noteq> None"
    and "Authenticator m' = Authenticator m \<and> Authenticator m \<noteq> None"
    and "MaxRefresh m' = MaxRefresh m"
    and "PayloadFunc m' = PayloadFunc m"
    and "StoreToken m' = StoreToken m"
    and "RemoveToken m' = RemoveToken m"
    and "TokenName m' = (if TokenName m = [] then ''Authorization'' else TokenName m)"
    and "TokenEnvName m' = (if TokenEnvName m = [] then ''AUTH_TOKEN'' else TokenEnvName m)"
    and "SigningAlgorithm m' = (if SigningAlgorithm m = [] then ''HS256'' else SigningAlgorithm m)"
    and "Timeout m' = (if Timeout m = 0 then Hour else Timeout m)"
    and "TokenExtractor m' = (if TokenExtractor m = NilExtractor then DefaultTokenExtractor
                              else TokenExtractor m)"
    and "Authorizator m' = (if Authorizator m = None then Some (\<lambda>userId request. True)
                            else Authorizator m)"
    and "LoginCallback m' = (if LoginCallback m = NilCallback then DefaultResponseCallback
                             else LoginCallback m)"
    and "RefreshCallback m' = (if RefreshCallback m = NilCallback then DefaultResponseCallback
                               else RefreshCallback m)"
proof -
  have ok: "Realm m \<noteq> []" "Key m \<noteq> None" "Authenticator m \<noteq> None"
  proof -
    show "Realm m \<noteq> []"
      using assms unfolding MiddlewareFunc_eq by (cases "Realm m = []") simp_all
    then show "Key m \<noteq> None"
      using assms unfolding MiddlewareFunc_eq by (cases "Key m = None") auto
    with \<open>Realm m \<noteq> []\<close> show "Authenticator m \<noteq> None"
      using assms unfolding MiddlewareFunc_eq by (cases "Authenticator m = None") auto
  qed
  with assms have m': "m' = m\<lparr>TokenName := (if TokenName m = [] then ''Authorization'' else TokenName m),
       TokenEnvName := (if TokenEnvName m = [] then ''AUTH_TOKEN'' else TokenEnvName m),
       SigningAlgorithm := (if SigningAlgorithm m = [] then ''HS256'' else SigningAlgorithm m),
       Timeout := (if Timeout m = 0 then Hour else Timeout m),
       TokenExtractor := (if TokenExtractor m = NilExtractor then DefaultTokenExtractor
                          else TokenExtractor m),
       Authorizator := (if Authorizator m = None then Some (\<lambda>userId request. True)
                        else Authorizator m),
       LoginCallback := (if LoginCallback m = NilCallback then DefaultResponseCallback
                         else LoginCallback m),
       RefreshCallback := (if RefreshCallback m = NilCallback then DefaultResponseCallback
                           else RefreshCallback m)\<rparr>"
    unfolding MiddlewareFunc_eq by (simp split del: if_split cong: if_cong)
  show "Realm m' = Realm m \<and> Realm m \<noteq> []"
    and "Key m' = Key m \<and> Key m \<noteq> None"
    and "Authenticator m' = Authenticator m \<and> Authenticator m \<noteq> None"
    and "MaxRefresh m' = MaxRefresh m"
    and "PayloadFunc m' = PayloadFunc m"
    and "StoreToken m' = StoreToken m"
    and "RemoveToken m' = RemoveToken m"
    and "TokenName m' = (if TokenName m = [] then ''Authorization'' else TokenName m)"
    and "TokenEnvName m' = (if TokenEnvName m = [] then ''AUTH_TOKEN'' else TokenEnvName m)"
    and "SigningAlgorithm m' = (if SigningAlgorithm m = [] then ''HS256'' else SigningAlgorithm m)"
    and "Timeout m' = (if Timeout m = 0 then Hour else Timeout m)"
    and "TokenExtractor m' = (if TokenExtractor m = NilExtractor then DefaultTokenExtractor
                              else TokenExtractor m)"
    and "Authorizator m' = (if Authorizator m = None then Some (\<lambda>userId request. True)
                            else Authorizator m)"
    and "LoginCallback m' = (if LoginCallback m = NilCallback then DefaultResponseCallback
                             else LoginCallback m)"
    and "RefreshCallback m' = (if RefreshCallback m = NilCallback then DefaultResponseCallback
                               else RefreshCallback m)"
    using ok unfolding m' by (simp_all split del: if_split cong: if_cong)
qed

lemma MiddlewareFunc_fixpoint:
  assumes "TokenName m \<noteq> []" "TokenEnvName m \<noteq> []" "Realm m \<noteq> []" "SigningAlgorithm m \<noteq> []"
    "Key m \<noteq> None" "Timeout m \<noteq> 0" "Authenticator m \<noteq> None" "TokenExtractor m \<noteq> NilExtractor"
    "Authorizator m \<noteq> None" "LoginCallback m \<noteq> NilCallback" "RefreshCallback m \<noteq> NilCallback"
  shows "MiddlewareFunc m = Inr m"
  using assms unfolding MiddlewareFunc_eq by simp

lemma MiddlewareFunc_idempotent:
  assumes "MiddlewareFunc m = Inr m'"
  shows "MiddlewareFunc m' = Inr m'"
  by (rule MiddlewareFunc_fixpoint)
    (auto simp: MiddlewareFunc_fields [OF assms] Hour_not_0)

text \<open>
  C8, as stated, fails: \<^verbatim>\<open>MiddlewareFunc\<close> writes the receiver. Called on the example
  configuration with the header name left empty, it stores \<^verbatim>\<open>Authorization\<close> there.
\<close>

theorem MiddlewareFunc_writes_config_counterexample:
  "MiddlewareFunc (example_mw\<lparr>TokenName := []\<rparr>) = Inr example_mw
   \<and> example_mw\<lparr>TokenName := []\<rparr> \<noteq> example_mw"
proof
  show "MiddlewareFunc (example_mw\<lparr>TokenName := []\<rparr>) = Inr example_mw"
    unfolding MiddlewareFunc_eq by (simp add: example_mw_def Hour_def)
  have "TokenName (example_mw\<lparr>TokenName := []\<rparr>) \<noteq> TokenName example_mw"
    by (simp add: example_mw_def)
  then show "example_mw\<lparr>TokenName := []\<rparr> \<noteq> example_mw"
    by metis
qed

text \<open>
  C8, amended. \<^verbatim>\<open>middlewareImpl\<close>, \<^verbatim>\<open>LoginHandler\<close> and \<^verbatim>\<open>RefreshHandler\<close> never write
  the configuration. \<^verbatim>\<open>MiddlewareFunc\<close> does, once: when it does not end the process
  it fills each unset field among header name, environment name, signing algorithm,
  timeout, token extractor, Authorizator and the two response callbacks with its
  default, and leaves every set field and realm, key, max-refresh, Authenticator,
  payload function and the store hooks as they are; on a configuration it has
  completed it changes nothing.
\<close>

theorem configuration_frame:
  "mw (snd (middlewareImpl L now \<sigma>)) = mw \<sigma>
   \<and> mw (snd (LoginHandler L now_exp now_iat \<sigma>)) = mw \<sigma>
   \<and> mw (snd (RefreshHandler L now_parse now_check now_exp \<sigma>)) = mw \<sigma>
   \<and> (\<forall>m'. MiddlewareFunc m = Inr m' \<longrightarrow>
         Realm m' = Realm m \<and> Key m' = Key m \<and> MaxRefresh m' = MaxRefresh m
         \<and> Authenticator m' = Authenticator m \<and> PayloadFunc m' = PayloadFunc m
         \<and> StoreToken m' = StoreToken m \<and> RemoveToken m' = RemoveToken m
         \<and> TokenName m' = (if TokenName m = [] then ''Authorization'' else TokenName m)
         \<and> TokenEnvName m' = (if TokenEnvName m = [] then ''AUTH_TOKEN'' else TokenEnvName m)
         \<and> SigningAlgorithm m'
             = (if SigningAlgorithm m = [] then ''HS256'' else SigningAlgorithm m)
         \<and> Timeout m' = (if Timeout m = 0 then Hour else Timeout m)
         \<and> TokenExtractor m'
             = (if TokenExtractor m = NilExtractor then DefaultTokenExtractor
                else TokenExtractor m)
         \<and> Authorizator m'
             = (if Authorizator m = None then Some (\<lambda>userId request. True)
                else Authorizator m)
         \<and> LoginCallback m'
             = (if LoginCallback m = NilCallback then DefaultResponseCallback
                else LoginCallback m)
         \<and> RefreshCallback m'
             = (if RefreshCallback m = NilCallback then DefaultResponseCallback
                else RefreshCallback m)
         \<and> MiddlewareFunc m' = Inr m')"
proof (intro conjI allI impI)
  fix m'
  assume defaulted: "MiddlewareFunc m = Inr m'"
  note fields = MiddlewareFunc_fields [OF defaulted]
  show "Realm m' = Realm m" "Key m' = Key m" "Authenticator m' = Authenticator m"
    using fields(1-3) by blast+
  show "MaxRefresh m' = MaxRefresh m" "PayloadFunc m' = PayloadFunc m"
    "StoreToken m' = StoreToken m" "RemoveToken m' = RemoveToken m"
    by (fact fields)+
  show "TokenName m' = (if TokenName m = [] then ''Authorization'' else TokenName m)"
    "TokenEnvName m' = (if TokenEnvName m = [] then ''AUTH_TOKEN'' else TokenEnvName m)"
    "SigningAlgorithm m' = (if SigningAlgorithm m = [] then ''HS256'' else SigningAlgorithm m)"
    "Timeout m' = (if Timeout m = 0 then Hour else Timeout m)"
    by (fact fields)+
  show "TokenExtractor m'
      = (if TokenExtractor m = NilExtractor then DefaultTokenExtractor else TokenExtractor m)"
    "Authorizator m'
      = (if Authorizator m = None then Some (\<lambda>userId request. True) else Authorizator m)"
    "LoginCallback m'
      = (if LoginCallback m = NilCallback then DefaultResponseCallback else LoginCallback m)"
    "RefreshCallback m'
      = (if RefreshCallback m = NilCallback then DefaultResponseCallback
         else RefreshCallback m)"
    by (fact fields)+
  show "MiddlewareFunc m' = Inr m'"
    by (rule MiddlewareFunc_idempotent [OF defaulted])
qed (fact mw_middlewareImpl mw_LoginHandler mw_RefreshHandler)+

theorem configuration_frame_witness:
  "mw (snd (LoginHandler example_pkg 0 0 (example_state example_mw []))) = example_mw
   \<and> MiddlewareFunc example_mw = Inr example_mw
   \<and> TokenName example_mw = ''Authorization''"
proof -
  have "MiddlewareFunc (example_mw\<lparr>TokenName := []\<rparr>) = Inr example_mw"
    unfolding MiddlewareFunc_eq by (simp add: example_mw_def Hour_def)
  with configuration_frame [where L = example_pkg and \<sigma> = "example_state example_mw []"
      and now_exp = 0 and now_iat = 0 and m = "example_mw\<lparr>TokenName := []\<rparr>"]
  show ?thesis
    by (simp add: example_state_def)
qed


section \<open>Reading the claims back\<close>

lemma middlewareImpl_admits:
  assumes "parseToken L now \<sigma> = Some (Inr token)"
    and "Claims token ''id'' = Some (VString ident)"
    and "Authorizator (mw \<sigma>) = Some authorize"
    and "authorize ident
           ((request \<sigma>)\<lparr>Env := bind_env (mw \<sigma>) token ident (Env (request \<sigma>))\<rparr>)"
  shows "middlewareImpl L now \<sigma>
      = (Return, emit (call_handler (bind_env (mw \<sigma>) token ident (Env (request \<sigma>))))
                   (emit (call_Authorizator ident)
                     (\<sigma>\<lparr>request := (request \<sigma>)
                         \<lparr>Env := bind_env (mw \<sigma>) token ident (Env (request \<sigma>))\<rparr>\<rparr>)))"
  using assms by (simp add: middlewareImpl_def index_def Let_def request_emit)

lemma bind_env_payload:
  "index (bind_env m token ident env) ''JWT_PAYLOAD''
     = (if TokenEnvName m = ''JWT_PAYLOAD'' then VString (Raw token)
        else VMap (Some (Claims token)))"
  by (simp add: index_def bind_env_def)

text \<open>
  C9, as stated, fails when the environment name of the raw token is configured as
  \<^verbatim>\<open>JWT_PAYLOAD\<close>: the gate stores the claims and then overwrites them with the raw
  token string, the request passes the gate, and \<^verbatim>\<open>ExtractClaims\<close> panics on it.
\<close>

theorem ExtractClaims_after_gate_counterexample:
  "fst (middlewareImpl example_pkg 3000000000000
          (example_state (example_mw\<lparr>TokenEnvName := ''JWT_PAYLOAD''\<rparr>) ''tokA'')) = Return
   \<and> last (trace (snd (middlewareImpl example_pkg 3000000000000
          (example_state (example_mw\<lparr>TokenEnvName := ''JWT_PAYLOAD''\<rparr>) ''tokA''))))
       = call_handler (Env (request (snd (middlewareImpl example_pkg 3000000000000
          (example_state (example_mw\<lparr>TokenEnvName := ''JWT_PAYLOAD''\<rparr>) ''tokA'')))))
   \<and> ExtractClaims (request (snd (middlewareImpl example_pkg 3000000000000
          (example_state (example_mw\<lparr>TokenEnvName := ''JWT_PAYLOAD''\<rparr>) ''tokA''))))
       = None"
proof -
  let ?\<sigma> = "example_state (example_mw\<lparr>TokenEnvName := ''JWT_PAYLOAD''\<rparr>) ''tokA''"
  have parsed: "parseToken example_pkg 3000000000000 ?\<sigma> = Some (Inr (token_A\<lparr>Valid := True\<rparr>))"
    by (rule example_parse)
      (simp_all add: example_mw_fields example_dec_def token_A_def exp_in_future_def
        Unix_def int64_def)
  have ident: "Claims (token_A\<lparr>Valid := True\<rparr>) ''id'' = Some (VString ''alice'')"
    by (simp add: token_A_def)
  have m: "mw ?\<sigma> = example_mw\<lparr>TokenEnvName := ''JWT_PAYLOAD''\<rparr>"
    by (simp add: example_state_def)
  have authz: "Authorizator (mw ?\<sigma>) = Some (\<lambda>userId request. True)"
    unfolding m by (simp add: example_mw_def)
  have name: "TokenEnvName (mw ?\<sigma>) = ''JWT_PAYLOAD''"
    unfolding m by simp
  have run: "middlewareImpl example_pkg 3000000000000 ?\<sigma>
      = (Return, emit (call_handler (bind_env (mw ?\<sigma>) (token_A\<lparr>Valid := True\<rparr>) ''alice''
                         (Env (request ?\<sigma>))))
                   (emit (call_Authorizator ''alice'')
                     (?\<sigma>\<lparr>request := (request ?\<sigma>)
                         \<lparr>Env := bind_env (mw ?\<sigma>) (token_A\<lparr>Valid := True\<rparr>) ''alice''
                                  (Env (request ?\<sigma>))\<rparr>\<rparr>)))"
    by (rule middlewareImpl_admits [OF parsed ident authz]) simp
  show ?thesis
    unfolding run
    by (simp add: trace_emit request_emit ExtractClaims_def bind_env_payload name)
qed

text \<open>
  C9, amended. For every request whose environment has no \<^verbatim>\<open>JWT_PAYLOAD\<close> entry (or a
  nil one), \<^verbatim>\<open>ExtractClaims\<close> returns a non-nil empty claims map, never nil and never
  an error. For every request that passed the gate of a middleware whose environment
  name for the raw token is not \<^verbatim>\<open>JWT_PAYLOAD\<close>, it returns exactly the claims map the
  gate stored; when that name is \<^verbatim>\<open>JWT_PAYLOAD\<close> the gate has overwritten the claims
  with the raw token string and \<^verbatim>\<open>ExtractClaims\<close> panics.
\<close>

theorem ExtractClaims_result:
  "(Env req ''JWT_PAYLOAD'' = None \<or> Env req ''JWT_PAYLOAD'' = Some VNil
      \<longrightarrow> ExtractClaims req = Some (Some Map.empty))
   \<and> (\<forall>token ident authorize \<sigma>1.
         parseToken L now \<sigma> = Some (Inr token) \<and> Claims token ''id'' = Some (VString ident)
         \<and> Authorizator (mw \<sigma>) = Some authorize
         \<and> \<sigma>1 = \<sigma>\<lparr>request := (request \<sigma>)
                     \<lparr>Env := bind_env (mw \<sigma>) token ident (Env (request \<sigma>))\<rparr>\<rparr>
         \<and> authorize ident (request \<sigma>1)
         \<longrightarrow> middlewareImpl L now \<sigma>
               = (Return, emit (call_handler (Env (request \<sigma>1)))
                            (emit (call_Authorizator ident) \<sigma>1))
           \<and> (TokenEnvName (mw \<sigma>) \<noteq> ''JWT_PAYLOAD''
                \<longrightarrow> ExtractClaims (request (snd (middlewareImpl L now \<sigma>)))
                      = Some (Some (Claims token)))
           \<and> (TokenEnvName (mw \<sigma>) = ''JWT_PAYLOAD''
                \<longrightarrow> ExtractClaims (request (snd (middlewareImpl L now \<sigma>))) = None))"
proof (intro conjI allI impI)
  assume "Env req ''JWT_PAYLOAD'' = None \<or> Env req ''JWT_PAYLOAD'' = Some VNil"
  then show "ExtractClaims req = Some (Some Map.empty)"
    by (auto simp: ExtractClaims_def index_def)
next
  fix token ident authorize \<sigma>1
  assume h: "parseToken L now \<sigma> = Some (Inr token) \<and> Claims token ''id'' = Some (VString ident)
      \<and> Authorizator (mw \<sigma>) = Some authorize
      \<and> \<sigma>1 = \<sigma>\<lparr>request := (request \<sigma>)
                  \<lparr>Env := bind_env (mw \<sigma>) token ident (Env (request \<sigma>))\<rparr>\<rparr>
      \<and> authorize ident (request \<sigma>1)"
  then have "authorize ident
      ((request \<sigma>)\<lparr>Env := bind_env (mw \<sigma>) token ident (Env (request \<sigma>))\<rparr>)"
    by clarsimp
  with h have run: "middlewareImpl L now \<sigma>
      = (Return, emit (call_handler (bind_env (mw \<sigma>) token ident (Env (request \<sigma>))))
                   (emit (call_Authorizator ident)
                     (\<sigma>\<lparr>request := (request \<sigma>)
                         \<lparr>Env := bind_env (mw \<sigma>) token ident (Env (request \<sigma>))\<rparr>\<rparr>)))"
    by (simp add: middlewareImpl_admits)
  with h show "middlewareImpl L now \<sigma>
      = (Return, emit (call_handler (Env (request \<sigma>1))) (emit (call_Authorizator ident) \<sigma>1))"
    by simp
  {
    assume "TokenEnvName (mw \<sigma>) \<noteq> ''JWT_PAYLOAD''"
    then show "ExtractClaims (request (snd (middlewareImpl L now \<sigma>))) = Some (Some (Claims token))"
      unfolding run by (simp add: request_emit ExtractClaims_def bind_env_payload)
  next
    assume "TokenEnvName (mw \<sigma>) = ''JWT_PAYLOAD''"
    then show "ExtractClaims (request (snd (middlewareImpl L now \<sigma>))) = None"
      unfolding run by (simp add: request_emit ExtractClaims_def bind_env_payload)
  }
qed

theorem ExtractClaims_result_witness:
  "ExtractClaims (example_request ''tokA'') = Some (Some Map.empty)
   \<and> ExtractClaims (request (snd (middlewareImpl example_pkg 3000000000000
        (example_state example_mw ''tokA''))))
       = Some (Some (Claims token_A))"
proof -
  let ?\<sigma> = "example_state example_mw ''tokA''"
  have "Env (example_request ''tokA'') ''JWT_PAYLOAD'' = None"
    by (simp add: example_request_def)
  with ExtractClaims_result [of "example_request ''tokA''"]
  have empty: "ExtractClaims (example_request ''tokA'') = Some (Some Map.empty)"
    by blast
  have "Claims (token_A\<lparr>Valid := True\<rparr>) ''id'' = Some (VString ''alice'')"
    "Authorizator (mw ?\<sigma>) = Some (\<lambda>userId request. True)"
    "TokenEnvName (mw ?\<sigma>) \<noteq> ''JWT_PAYLOAD''"
    by (simp_all add: token_A_def example_state_def example_mw_def)
  with ExtractClaims_result [where L = example_pkg and now = 3000000000000 and \<sigma> = ?\<sigma>]
    example_parse_A
  have "ExtractClaims (request (snd (middlewareImpl example_pkg 3000000000000 ?\<sigma>)))
      = Some (Some (Claims (token_A\<lparr>Valid := True\<rparr>)))"
    by blast
  with empty show ?thesis
    by simp
qed


section \<open>Login with an undecodable body\<close>

text \<open>
  C10. When the body of a login request does not decode, \<^verbatim>\<open>LoginHandler\<close> answers with
  the uniform unauthorized response and nothing else: the Authenticator is not called.
  A credential failure writes the same response, after the call of the Authenticator.
\<close>

theorem LoginHandler_undecodable_body:
  assumes "DecodeJsonPayload (request \<sigma>) = Inl err"
  shows "LoginHandler L now_exp now_iat \<sigma> = (Return, unauthorized \<sigma>)
       \<and> trace (snd (LoginHandler L now_exp now_iat \<sigma>))
           = trace \<sigma> @ [Header_Set ''WWW-Authenticate'' (''JWT realm='' @ Realm (mw \<sigma>)),
                         rest_Error ''Not Authorized'' 401]
       \<and> (\<forall>u p. call_Authenticator u p
              \<notin> set (drop (length (trace \<sigma>)) (trace (snd (LoginHandler L now_exp now_iat \<sigma>)))))
       \<and> (\<forall>\<sigma>' loginVals authenticate.
             DecodeJsonPayload (request \<sigma>') = Inr loginVals
             \<and> Authenticator (mw \<sigma>') = Some authenticate
             \<and> \<not> authenticate (Username loginVals) (Password loginVals)
           \<longrightarrow> trace (snd (LoginHandler L now_exp now_iat \<sigma>'))
                 = trace \<sigma>' @ [call_Authenticator (Username loginVals) (Password loginVals),
                     Header_Set ''WWW-Authenticate'' (''JWT realm='' @ Realm (mw \<sigma>')),
                     rest_Error ''Not Authorized'' 401])"
proof -
  have rejected: "LoginHandler L now_exp now_iat \<sigma> = (Return, unauthorized \<sigma>)"
    using assms by (simp add: LoginHandler_def)
  have "trace (snd (LoginHandler L now_exp now_iat \<sigma>'))
      = trace \<sigma>' @ [call_Authenticator (Username loginVals) (Password loginVals),
          Header_Set ''WWW-Authenticate'' (''JWT realm='' @ Realm (mw \<sigma>')),
          rest_Error ''Not Authorized'' 401]"
    if "DecodeJsonPayload (request \<sigma>') = Inr loginVals
        \<and> Authenticator (mw \<sigma>') = Some authenticate
        \<and> \<not> authenticate (Username loginVals) (Password loginVals)"
    for \<sigma>' loginVals authenticate
    using that by (simp add: LoginHandler_def Let_def trace_unauthorized trace_emit mw_emit)
  moreover have "trace (snd (LoginHandler L now_exp now_iat \<sigma>))
      = trace \<sigma> @ [Header_Set ''WWW-Authenticate'' (''JWT realm='' @ Realm (mw \<sigma>)),
                    rest_Error ''Not Authorized'' 401]"
    by (simp only: rejected snd_conv trace_unauthorized)
  moreover from this
  have "\<forall>u p. call_Authenticator u p
      \<notin> set (drop (length (trace \<sigma>)) (trace (snd (LoginHandler L now_exp now_iat \<sigma>))))"
    by simp
  ultimately show ?thesis
    using rejected by blast
qed

theorem LoginHandler_undecodable_body_witness:
  "LoginHandler example_pkg 0 0
     ((example_state example_mw [])
        \<lparr>request := (example_request [])
           \<lparr>DecodeJsonPayload := Inl (errors_New ''JSON payload is empty'')\<rparr>\<rparr>)
   = (Return, unauthorized ((example_state example_mw [])
        \<lparr>request := (example_request [])
           \<lparr>DecodeJsonPayload := Inl (errors_New ''JSON payload is empty'')\<rparr>\<rparr>))
   \<and> trace (snd (LoginHandler example_pkg 0 0
        ((example_state example_mw [])
           \<lparr>request := (example_request [])
              \<lparr>DecodeJsonPayload := Inl (errors_New ''JSON payload is empty'')\<rparr>\<rparr>)))
       = [Header_Set ''WWW-Authenticate'' ''JWT realm=example'',
          rest_Error ''Not Authorized'' 401]"
proof -
  let ?\<sigma> = "(example_state example_mw [])
      \<lparr>request := (example_request [])
         \<lparr>DecodeJsonPayload := Inl (errors_New ''JSON payload is empty'')\<rparr>\<rparr>"
  have "DecodeJsonPayload (request ?\<sigma>) = Inl (errors_New ''JSON payload is empty'')"
    by simp
  note facts = LoginHandler_undecodable_body [OF this, of example_pkg 0 0]
  from facts have "LoginHandler example_pkg 0 0 ?\<sigma> = (Return, unauthorized ?\<sigma>)"
    by blast
  moreover from facts have "trace (snd (LoginHandler example_pkg 0 0 ?\<sigma>))
      = trace ?\<sigma> @ [Header_Set ''WWW-Authenticate'' (''JWT realm='' @ Realm (mw ?\<sigma>)),
                      rest_Error ''Not Authorized'' 401]"
    by blast
  then have "trace (snd (LoginHandler example_pkg 0 0 ?\<sigma>))
      = [Header_Set ''WWW-Authenticate'' ''JWT realm=example'', rest_Error ''Not Authorized'' 401]"
    by (simp add: example_state_def example_mw_fields)
  ultimately show ?thesis
    by (intro conjI)
qed


end
